theory Spec2Isabelle
  imports Main
begin

section \<open>Data model (shared schema)\<close>

text \<open>
  The relational schema of the application, one record per table row.  Identifiers are
  the \<open>varchar\<close> primary keys, timestamps are epoch milliseconds (what a JavaScript
  \<open>Date\<close> holds), and a nullable column is an \<open>option\<close>.  The \<open>decimal(10,2)\<close>
  prices are kept in cents.  Only the columns that the voucher life cycle reads or writes
  are kept for users, businesses and deals.
\<close>

type_synonym ident = string
type_synonym timestamp = int

record users_row =
  u_id :: ident
  u_email :: "string option"

record businesses_row =
  b_id :: ident
  b_name :: string
  b_address :: string
  b_city :: string

record deals_row =
  d_id :: ident
  d_businessId :: ident
  d_title :: string
  d_description :: string
  d_originalPrice :: int
  d_discountedPrice :: int
  d_discountPercentage :: int

text \<open>
  \<open>vouchers\<close>: \<open>status\<close> is a nullable \<open>varchar\<close> with default \<open>"active"\<close>,
  \<open>purchased_at\<close> defaults to the database clock, \<open>used_at\<close> is nullable without a
  default, \<open>expires_at\<close> is \<open>NOT NULL\<close>.
\<close>

record vouchers_row =
  v_id :: ident
  v_userId :: ident
  v_dealId :: ident
  v_code :: string
  v_status :: "string option"
  v_purchasedAt :: "timestamp option"
  v_usedAt :: "timestamp option"
  v_expiresAt :: timestamp

record notifications_row =
  n_id :: ident
  n_userId :: ident
  n_title :: string
  n_message :: string
  n_type :: string
  n_read :: "bool option"
  n_createdAt :: "timestamp option"

record business_payments_row =
  p_id :: ident
  p_businessId :: ident
  p_voucherId :: ident
  p_amount :: int
  p_description :: "string option"
  p_stripeTransferId :: "string option"
  p_status :: "string option"
  p_createdAt :: "timestamp option"

text \<open>The store: every table is the list of its rows.\<close>

record database =
  users :: "users_row list"
  businesses :: "businesses_row list"
  deals :: "deals_row list"
  vouchers :: "vouchers_row list"
  notifications :: "notifications_row list"
  business_payments :: "business_payments_row list"

text \<open>
  A statement that the database rejects throws in the storage layer and leaves the store
  as it was.
\<close>

datatype error = UniqueViolation | ForeignKeyViolation

section \<open>Storage layer: vouchers\<close>

text \<open>
  \<open>useVoucher\<close>: one \<open>UPDATE vouchers SET status = 'used', used_at = now WHERE id = ?
  AND status = 'active' RETURNING *\<close>; the result is whether a row came back.
\<close>

definition use_matches :: "ident \<Rightarrow> vouchers_row \<Rightarrow> bool" where
  "use_matches voucherId v = (v_id v = voucherId \<and> v_status v = Some ''active'')"

definition mark_used :: "timestamp \<Rightarrow> vouchers_row \<Rightarrow> vouchers_row" where
  "mark_used now v = v\<lparr>v_status := Some ''used'', v_usedAt := Some now\<rparr>"

definition useVoucher :: "database \<Rightarrow> ident \<Rightarrow> timestamp \<Rightarrow> bool \<times> database" where
  "useVoucher db voucherId now =
     (let result = filter (use_matches voucherId) (vouchers db)
      in (length result > 0,
          db\<lparr>vouchers := map (\<lambda>v. if use_matches voucherId v then mark_used now v else v)
                              (vouchers db)\<rparr>))"

text \<open>
  \<open>verifyVoucherByCode\<close>: the first row of \<open>vouchers LEFT JOIN deals LEFT JOIN businesses
  LEFT JOIN users WHERE vouchers.code = ?\<close>, or \<open>undefined\<close> (\<open>None\<close>) when no voucher
  has the code.  A nested object of the selection whose joined row is missing is
  \<open>null\<close>.  The joins are on primary keys, so the first match is the only one.
\<close>

record deal_view =
  dv_id :: ident
  dv_title :: string
  dv_description :: string
  dv_originalPrice :: int
  dv_discountedPrice :: int
  dv_discountPercentage :: int

record voucher_view =
  vv_id :: ident
  vv_code :: string
  vv_status :: "string option"
  vv_purchasedAt :: "timestamp option"
  vv_usedAt :: "timestamp option"
  vv_expiresAt :: timestamp
  vv_deal :: "deal_view option"
  vv_business :: "businesses_row option"
  vv_user :: "users_row option"

definition deal_fields :: "deals_row \<Rightarrow> deal_view" where
  "deal_fields d =
     \<lparr>dv_id = d_id d, dv_title = d_title d, dv_description = d_description d,
      dv_originalPrice = d_originalPrice d, dv_discountedPrice = d_discountedPrice d,
      dv_discountPercentage = d_discountPercentage d\<rparr>"

definition join_voucher :: "database \<Rightarrow> vouchers_row \<Rightarrow> voucher_view" where
  "join_voucher db v =
     (let deal = find (\<lambda>d. d_id d = v_dealId v) (deals db);
          business = (case deal of None \<Rightarrow> None
                      | Some d \<Rightarrow> find (\<lambda>b. b_id b = d_businessId d) (businesses db));
          user = find (\<lambda>u. u_id u = v_userId v) (users db)
      in \<lparr>vv_id = v_id v, vv_code = v_code v, vv_status = v_status v,
          vv_purchasedAt = v_purchasedAt v, vv_usedAt = v_usedAt v,
          vv_expiresAt = v_expiresAt v,
          vv_deal = map_option deal_fields deal, vv_business = business, vv_user = user\<rparr>)"

definition verifyVoucherByCode :: "database \<Rightarrow> string \<Rightarrow> voucher_view option" where
  "verifyVoucherByCode db code =
     map_option (join_voucher db) (find (\<lambda>v. v_code v = code) (vouchers db))"

section \<open>Issuing vouchers\<close>

text \<open>
  JavaScript values that \<open>createVoucher\<close> renders into the code: the decimal digits of
  \<open>Date.now()\<close> in a template string, \<open>substr(2, 6)\<close> (at most six characters from
  index 2) and \<open>toUpperCase\<close> (on the ASCII characters that \<open>toString(36)\<close> produces).
\<close>

fun show_nat :: "nat \<Rightarrow> string" where
  "show_nat n =
     (if n < 10 then [''0123456789'' ! n]
      else show_nat (n div 10) @ [''0123456789'' ! (n mod 10)])"

declare show_nat.simps [simp del]

definition show_int :: "int \<Rightarrow> string" where
  "show_int i = (if i < 0 then ''-'' @ show_nat (nat (- i)) else show_nat (nat i))"

definition substr :: "string \<Rightarrow> nat \<Rightarrow> nat \<Rightarrow> string" where
  "substr s start len = take len (drop start s)"

definition toUpperCase_char :: "char \<Rightarrow> char" where
  "toUpperCase_char c =
     (case map_of (zip ''abcdefghijklmnopqrstuvwxyz'' ''ABCDEFGHIJKLMNOPQRSTUVWXYZ'') c of
        Some u \<Rightarrow> u
      | None \<Rightarrow> c)"

definition toUpperCase :: "string \<Rightarrow> string" where
  "toUpperCase s = map toUpperCase_char s"

text \<open>
  \<open>InsertVoucher\<close>, the argument of \<open>createVoucher\<close>: the insert schema of \<open>vouchers\<close>
  without \<open>id\<close> and \<open>purchasedAt\<close>.  \<open>status\<close> is optional and nullable: \<open>None\<close> is an
  omitted field (the column default applies), \<open>Some None\<close> an explicit \<open>null\<close>.
  \<open>usedAt\<close> is optional and nullable, and both ways it is stored as \<open>NULL\<close>.
  \<open>expiresAt\<close> is \<open>None\<close> when the field is absent at run time, the case of the
  \<open>||\<close> default (a \<open>Date\<close> object is never falsy).
\<close>

record InsertVoucher =
  iv_userId :: ident
  iv_dealId :: ident
  iv_code :: string
  iv_status :: "string option option"
  iv_usedAt :: "timestamp option"
  iv_expiresAt :: "timestamp option"

text \<open>
  What \<open>createVoucher\<close> reads from its environment, in the order it reads it:
  \<open>Date.now()\<close> and \<open>Math.random().toString(36)\<close> for the code, \<open>randomUUID()\<close>,
  \<open>Date.now()\<close> for the default expiry, and the database clock for the
  \<open>purchased_at\<close> default.
\<close>

record voucher_env =
  e_nowCode :: timestamp
  e_random36 :: string
  e_uuid :: ident
  e_nowExpiry :: timestamp
  e_dbNow :: timestamp

definition generated_code :: "voucher_env \<Rightarrow> string" where
  "generated_code env =
     ''DS-'' @ show_int (e_nowCode env) @ ''-'' @ toUpperCase (substr (e_random36 env) 2 6)"

definition new_voucher_row :: "InsertVoucher \<Rightarrow> voucher_env \<Rightarrow> vouchers_row" where
  "new_voucher_row voucher env =
     \<lparr>v_id = e_uuid env,
      v_userId = iv_userId voucher,
      v_dealId = iv_dealId voucher,
      v_code = generated_code env,
      v_status = (case iv_status voucher of None \<Rightarrow> Some ''active'' | Some s \<Rightarrow> s),
      v_purchasedAt = Some (e_dbNow env),
      v_usedAt = iv_usedAt voucher,
      v_expiresAt = (case iv_expiresAt voucher of
                       Some t \<Rightarrow> t
                     | None \<Rightarrow> e_nowExpiry env + 30 * 24 * 60 * 60 * 1000)\<rparr>"

text \<open>
  The insert is rejected when the primary key or the unique \<open>code\<close> is already stored
  and when \<open>user_id\<close> or \<open>deal_id\<close> reference no row; the method then throws.
\<close>

definition createVoucher ::
  "database \<Rightarrow> InsertVoucher \<Rightarrow> voucher_env \<Rightarrow> error + (vouchers_row \<times> database)" where
  "createVoucher db voucher env =
     (let newVoucher = new_voucher_row voucher env
      in if v_id newVoucher \<in> set (map v_id (vouchers db)) \<or>
            v_code newVoucher \<in> set (map v_code (vouchers db))
         then Inl UniqueViolation
         else if \<not> (v_userId newVoucher \<in> set (map u_id (users db)) \<and>
                    v_dealId newVoucher \<in> set (map d_id (deals db)))
         then Inl ForeignKeyViolation
         else Inr (newVoucher, db\<lparr>vouchers := vouchers db @ [newVoucher]\<rparr>))"

section \<open>Storage layer: notifications and business payments\<close>

text \<open>
  The insert types leave out \<open>id\<close> and \<open>createdAt\<close>.  A column with a default
  (\<open>read\<close>, \<open>status\<close>) takes it when the field is omitted (\<open>None\<close>).
\<close>

record InsertNotification =
  in_userId :: ident
  in_title :: string
  in_message :: string
  in_type :: string
  in_read :: "bool option option"

definition createNotification ::
  "database \<Rightarrow> InsertNotification \<Rightarrow> ident \<Rightarrow> timestamp
     \<Rightarrow> error + (notifications_row \<times> database)" where
  "createNotification db notification uuid dbNow =
     (let newNotification =
            \<lparr>n_id = uuid, n_userId = in_userId notification,
             n_title = in_title notification, n_message = in_message notification,
             n_type = in_type notification,
             n_read = (case in_read notification of None \<Rightarrow> Some False | Some r \<Rightarrow> r),
             n_createdAt = Some dbNow\<rparr>
      in if uuid \<in> set (map n_id (notifications db)) then Inl UniqueViolation
         else if in_userId notification \<notin> set (map u_id (users db))
         then Inl ForeignKeyViolation
         else Inr (newNotification,
                   db\<lparr>notifications := notifications db @ [newNotification]\<rparr>))"

record InsertBusinessPayment =
  ip_businessId :: ident
  ip_voucherId :: ident
  ip_amount :: int
  ip_description :: "string option"
  ip_stripeTransferId :: "string option"
  ip_status :: "string option option"

text \<open>\<open>createBusinessPayment\<close> stamps \<open>createdAt\<close> itself, with \<open>new Date()\<close>.\<close>

definition createBusinessPayment ::
  "database \<Rightarrow> InsertBusinessPayment \<Rightarrow> ident \<Rightarrow> timestamp
     \<Rightarrow> error + (business_payments_row \<times> database)" where
  "createBusinessPayment db payment uuid now =
     (let newPayment =
            \<lparr>p_id = uuid, p_businessId = ip_businessId payment,
             p_voucherId = ip_voucherId payment, p_amount = ip_amount payment,
             p_description = ip_description payment,
             p_stripeTransferId = ip_stripeTransferId payment,
             p_status = (case ip_status payment of None \<Rightarrow> Some ''pending'' | Some s \<Rightarrow> s),
             p_createdAt = Some now\<rparr>
      in if uuid \<in> set (map p_id (business_payments db)) then Inl UniqueViolation
         else if \<not> (ip_businessId payment \<in> set (map b_id (businesses db)) \<and>
                    ip_voucherId payment \<in> set (map v_id (vouchers db)))
         then Inl ForeignKeyViolation
         else Inr (newPayment,
                   db\<lparr>business_payments := business_payments db @ [newPayment]\<rparr>))"

definition updateBusinessPaymentStatus ::
  "database \<Rightarrow> ident \<Rightarrow> string \<Rightarrow> bool \<times> database" where
  "updateBusinessPaymentStatus db ident status =
     (length (filter (\<lambda>p. p_id p = ident) (business_payments db)) > 0,
      db\<lparr>business_payments :=
            map (\<lambda>p. if p_id p = ident then p\<lparr>p_status := Some status\<rparr> else p)
              (business_payments db)\<rparr>)"

section \<open>HTTP routes of the voucher life cycle\<close>

text \<open>
  A response is its status code and its JSON body.  Every handler takes the store and
  returns the response with the store it leaves.  A field of the request body that is
  absent is \<open>None\<close>; JavaScript's \<open>!code\<close> holds for an absent and for an empty string,
  and for no other string.
  The clock readings (\<open>new Date()\<close>) are arguments, one per reading.
\<close>

datatype body =
    Message string
  | NotValidForBusiness string string
  | Verification bool voucher_view string
  | Redemption bool string voucher_view
  | PaymentFailed string string
  | VoucherPurchased bool string vouchers_row
  | NotificationCreated bool notifications_row
  | PaymentProcessed bool business_payments_row

type_synonym response = "nat \<times> body"

text \<open>\<open>PATCH /api/vouchers/:id/use\<close>, behind \<open>isAuthenticated\<close>: \<open>user\<close> is the
  authenticated principal, which the handler never reads.\<close>

definition patch_vouchers_use ::
  "database \<Rightarrow> ident \<Rightarrow> ident \<Rightarrow> timestamp \<Rightarrow> response \<times> database" where
  "patch_vouchers_use db user voucherId tUse =
     (case useVoucher db voucherId tUse of
        (success, db') \<Rightarrow>
          if \<not> success then ((400, Message ''Voucher could not be used''), db')
          else ((200, Message ''Voucher used successfully''), db'))"

text \<open>\<open>POST /api/business/vouchers/verify\<close>.\<close>

definition post_business_vouchers_verify ::
  "database \<Rightarrow> string option \<Rightarrow> timestamp \<Rightarrow> response \<times> database" where
  "post_business_vouchers_verify db code now =
     (case code of
        None \<Rightarrow> ((400, Message ''Voucher code is required''), db)
      | Some c \<Rightarrow>
          if c = [] then ((400, Message ''Voucher code is required''), db)
          else
            (case verifyVoucherByCode db c of
               None \<Rightarrow> ((404, Message ''Voucher not found''), db)
             | Some voucher \<Rightarrow>
                 if vv_expiresAt voucher < now
                 then ((200, Verification False voucher ''Voucher is expired''), db)
                 else if vv_status voucher = Some ''used''
                 then ((200, Verification False voucher ''Voucher has already been used''), db)
                 else if vv_status voucher \<noteq> Some ''active''
                 then ((200, Verification False voucher ''Voucher is not active''), db)
                 else ((200, Verification True voucher ''Voucher is valid and ready to use''),
                       db)))"

text \<open>
  \<open>POST /api/business/vouchers/redeem\<close>, in its two database round trips: the read with
  the checks (\<open>redeem_checks\<close>, \<open>Inl\<close> the rejection), then the conditional update
  (\<open>redeem_commit\<close>).  \<open>voucher.business.id\<close> on a voucher whose join found no business
  is a \<open>TypeError\<close>, which the handler's \<open>catch\<close> answers with 500.
\<close>

definition redeem_checks ::
  "database \<Rightarrow> string option \<Rightarrow> string option \<Rightarrow> timestamp \<Rightarrow> response + voucher_view" where
  "redeem_checks db code businessId now =
     (case (code, businessId) of
        (Some c, Some bid) \<Rightarrow>
          if c = [] \<or> bid = []
          then Inl (400, Message ''Voucher code and business ID are required'')
          else
            (case verifyVoucherByCode db c of
               None \<Rightarrow> Inl (404, Message ''Voucher not found'')
             | Some voucher \<Rightarrow>
                 (case vv_business voucher of
                    None \<Rightarrow> Inl (500, Message ''Failed to redeem voucher'')
                  | Some business \<Rightarrow>
                      if b_id business \<noteq> bid
                      then Inl (403, NotValidForBusiness
                                       ''This voucher is not valid for your business''
                                       (b_name business))
                      else if vv_expiresAt voucher < now
                      then Inl (400, Message ''Voucher has expired'')
                      else if vv_status voucher \<noteq> Some ''active''
                      then Inl (400, Message ''Voucher is not active'')
                      else Inr voucher))
      | _ \<Rightarrow> Inl (400, Message ''Voucher code and business ID are required''))"

definition redeem_commit ::
  "database \<Rightarrow> voucher_view \<Rightarrow> timestamp \<Rightarrow> timestamp \<Rightarrow> response \<times> database" where
  "redeem_commit db voucher tUse tResp =
     (case useVoucher db (vv_id voucher) tUse of
        (success, db') \<Rightarrow>
          if \<not> success then ((400, Message ''Failed to redeem voucher''), db')
          else ((200, Redemption True ''Voucher redeemed successfully''
                        (voucher\<lparr>vv_status := Some ''used'', vv_usedAt := Some tResp\<rparr>)),
                db'))"

definition post_business_vouchers_redeem ::
  "database \<Rightarrow> string option \<Rightarrow> string option \<Rightarrow> timestamp \<Rightarrow> timestamp \<Rightarrow> timestamp
     \<Rightarrow> response \<times> database" where
  "post_business_vouchers_redeem db code businessId now tUse tResp =
     (case redeem_checks db code businessId now of
        Inl rejection \<Rightarrow> (rejection, db)
      | Inr voucher \<Rightarrow> redeem_commit db voucher tUse tResp)"

text \<open>
  \<open>POST /api/payments/process\<close>, behind \<open>isAuthenticated\<close> (\<open>user\<close> is the
  authenticated principal): the mocked customer payment that issues the voucher.
  \<open>isSuccessful\<close> is the outcome of \<open>Math.random() > 0.1\<close>; the three readings of
  \<open>Date.now()\<close> are for the supplied code, the supplied expiry and the transaction id.
  A body without \<open>dealId\<close> makes the insert fail on \<open>NOT NULL\<close>.
\<close>

definition post_payments_process ::
  "database \<Rightarrow> ident \<Rightarrow> ident option \<Rightarrow> bool \<Rightarrow> timestamp \<Rightarrow> timestamp \<Rightarrow> timestamp
     \<Rightarrow> voucher_env \<Rightarrow> response \<times> database" where
  "post_payments_process db user dealId isSuccessful tCode tExpiry tTx env =
     (if \<not> isSuccessful
      then ((400, PaymentFailed ''Payment failed''
                    ''Insufficient funds or payment method declined''), db)
      else
        (case dealId of
           None \<Rightarrow> ((500, Message ''Failed to process payment''), db)
         | Some d \<Rightarrow>
             (case createVoucher db
                     \<lparr>iv_userId = user, iv_dealId = d, iv_code = ''V'' @ show_int tCode,
                      iv_status = None, iv_usedAt = None,
                      iv_expiresAt = Some (tExpiry + 30 * 24 * 60 * 60 * 1000)\<rparr> env of
                Inl e \<Rightarrow> ((500, Message ''Failed to process payment''), db)
              | Inr (voucher, db') \<Rightarrow>
                  ((200, VoucherPurchased True (''tx_'' @ show_int tTx) voucher), db'))))"

text \<open>\<open>POST /api/notifications\<close>.\<close>

definition post_notifications ::
  "database \<Rightarrow> ident \<Rightarrow> string \<Rightarrow> string \<Rightarrow> string \<Rightarrow> ident \<Rightarrow> timestamp
     \<Rightarrow> response \<times> database" where
  "post_notifications db userId title message type uuid dbNow =
     (case createNotification db
             \<lparr>in_userId = userId, in_title = title, in_message = message, in_type = type,
              in_read = Some (Some False)\<rparr> uuid dbNow of
        Inl e \<Rightarrow> ((500, Message ''Failed to create notification''), db)
      | Inr (notification, db') \<Rightarrow> ((200, NotificationCreated True notification), db'))"

text \<open>
  \<open>POST /api/business/payments/process\<close>: the payment row is inserted as \<open>pending\<close>
  and then marked \<open>completed\<close>; the transfer is simulated.  The response carries the
  payment with the dummy transfer id, which is not stored; its \<open>message\<close>, \<open>demoMode\<close>
  and \<open>transferDetails\<close> fields are left out here.  The amount travels as a JavaScript
  number and is stored back into a \<open>decimal(10,2)\<close> column; it is kept in cents.
\<close>

definition post_business_payments_process ::
  "database \<Rightarrow> ident \<Rightarrow> ident \<Rightarrow> int \<Rightarrow> string option \<Rightarrow> ident \<Rightarrow> timestamp \<Rightarrow> timestamp
     \<Rightarrow> response \<times> database" where
  "post_business_payments_process db businessId voucherId amount description uuid tCreated
       tTransfer =
     (case createBusinessPayment db
             \<lparr>ip_businessId = businessId, ip_voucherId = voucherId, ip_amount = amount,
              ip_description = description, ip_stripeTransferId = None,
              ip_status = Some (Some ''pending'')\<rparr> uuid tCreated of
        Inl e \<Rightarrow> ((500, Message ''Failed to process payment''), db)
      | Inr (payment, db1) \<Rightarrow>
          (case updateBusinessPaymentStatus db1 (p_id payment) ''completed'' of
             (updated, db2) \<Rightarrow>
               ((200, PaymentProcessed True
                        (payment\<lparr>p_status := Some ''completed'',
                                  p_stripeTransferId :=
                                    Some (''dummy_transfer_'' @ show_int tTransfer)\<rparr>)),
                db2)))"

section \<open>The business client: voucher verification component\<close>

text \<open>
  The handlers of the component that drive the routes.  Only their effect on the store
  is modelled (toasts and component state are not).  The HTTP helper \<open>apiRequest\<close> is
  not among the sources: it is taken to hand back the JSON body of a 2xx response and to
  throw otherwise.  Were it to hand back the body of an error response too, \<open>valid\<close> and
  \<open>success\<close> would be undefined there and the handlers would stop at the same place.
  \<open>trim\<close> removes the ASCII white space at both ends of the input.
\<close>

definition is_space :: "char \<Rightarrow> bool" where
  "is_space c = (c \<in> set [CHR 0x09, CHR 0x0A, CHR 0x0B, CHR 0x0C, CHR 0x0D, CHR 0x20])"

definition trim :: "string \<Rightarrow> string" where
  "trim s = rev (dropWhile is_space (rev (dropWhile is_space s)))"

definition response_ok :: "response \<Rightarrow> bool" where
  "response_ok r = (200 \<le> fst r \<and> fst r < 300)"

text \<open>The clock readings and fresh identifiers of one run of the scan-and-redeem flow.\<close>

record flow_env =
  f_tVerify :: timestamp
  f_tRedeem :: timestamp
  f_tUse :: timestamp
  f_tResp :: timestamp
  f_notificationId :: ident
  f_tNotification :: timestamp
  f_paymentId :: ident
  f_tPayment :: timestamp
  f_tTransfer :: timestamp

text \<open>
  \<open>sendRedemptionNotification\<close> and \<open>processBusinessPayment\<close>: each builds its request
  from the verified voucher inside a \<open>try\<close>; a \<open>null\<close> user, deal or business there is a
  \<open>TypeError\<close> that the \<open>catch\<close> logs, and no request is sent.  A failed request is
  logged too.  The title ends with the check mark U+2705 in UTF-8.
\<close>

definition sendRedemptionNotification ::
  "database \<Rightarrow> voucher_view \<Rightarrow> flow_env \<Rightarrow> database" where
  "sendRedemptionNotification db voucher env =
     (case (vv_user voucher, vv_deal voucher, vv_business voucher) of
        (Some user, Some deal, Some business) \<Rightarrow>
          snd (post_notifications db (u_id user)
                 (''Voucher Ingewisseld '' @ [CHR 0xE2, CHR 0x9C, CHR 0x85])
                 (''Uw voucher voor '' @ [CHR 0x22] @ dv_title deal @ [CHR 0x22] @
                  '' is succesvol gebruikt bij '' @ b_name business)
                 ''voucher_redeemed'' (f_notificationId env) (f_tNotification env))
      | _ \<Rightarrow> db)"

definition processBusinessPayment ::
  "database \<Rightarrow> ident \<Rightarrow> voucher_view \<Rightarrow> flow_env \<Rightarrow> database" where
  "processBusinessPayment db businessId voucher env =
     (case vv_deal voucher of
        None \<Rightarrow> db
      | Some deal \<Rightarrow>
          snd (post_business_payments_process db businessId (vv_id voucher)
                 (dv_discountedPrice deal) (Some (''Voucher uitbetaling: '' @ dv_title deal))
                 (f_paymentId env) (f_tPayment env) (f_tTransfer env)))"

text \<open>
  \<open>handleRedeemVoucher\<close>, the "redeem" button after a manual verification:
  \<open>verificationResult\<close> is the component's state, \<open>voucherCode\<close> the input field.
\<close>

definition handleRedeemVoucher ::
  "database \<Rightarrow> ident \<Rightarrow> string \<Rightarrow> voucher_view option \<Rightarrow> flow_env \<Rightarrow> database" where
  "handleRedeemVoucher db businessId voucherCode verificationResult env =
     (case verificationResult of
        None \<Rightarrow> db
      | Some shown \<Rightarrow>
          snd (post_business_vouchers_redeem db (Some (trim voucherCode)) (Some businessId)
                 (f_tRedeem env) (f_tUse env) (f_tResp env)))"

text \<open>
  \<open>handleAutoRedeemVoucher\<close>, run on a scanned QR code: verify, compare the business,
  redeem, and after a successful redemption notify the buyer and pay the business.
\<close>

definition handleAutoRedeemVoucher ::
  "database \<Rightarrow> ident \<Rightarrow> string \<Rightarrow> flow_env \<Rightarrow> database" where
  "handleAutoRedeemVoucher db businessId code env =
     (case post_business_vouchers_verify db (Some (trim code)) (f_tVerify env) of
        (verification, db1) \<Rightarrow>
          (case snd verification of
             Verification valid voucher message \<Rightarrow>
               if \<not> response_ok verification \<or> \<not> valid then db1
               else
                 (case vv_business voucher of
                    None \<Rightarrow> db1
                  | Some business \<Rightarrow>
                      if b_id business \<noteq> businessId then db1
                      else
                        (case post_business_vouchers_redeem db1 (Some (trim code))
                                (Some businessId) (f_tRedeem env) (f_tUse env) (f_tResp env) of
                           (redeemResult, db2) \<Rightarrow>
                             (case snd redeemResult of
                                Redemption success message' redeemed \<Rightarrow>
                                  if response_ok redeemResult \<and> success
                                  then processBusinessPayment
                                         (sendRedemptionNotification db2 voucher env)
                                         businessId voucher env
                                  else db2
                              | _ \<Rightarrow> db2)))
           | _ \<Rightarrow> db1))"

section \<open>Operations on the store\<close>

text \<open>
  The ways the application changes the store in the voucher life cycle: issuing
  (\<open>createVoucher\<close> directly, or through the customer payment route), the generic use
  route, verification, the redemption route (what the manual button calls), and the
  scan-and-redeem flow, the one place that posts a business payment.
\<close>

datatype operation =
    CreateVoucher InsertVoucher voucher_env
  | PaymentsProcess ident "ident option" bool timestamp timestamp timestamp voucher_env
  | PatchUse ident ident timestamp
  | Verify "string option" timestamp
  | Redeem "string option" "string option" timestamp timestamp timestamp
  | AutoRedeem ident string flow_env

fun step :: "database \<Rightarrow> operation \<Rightarrow> database" where
  "step db (CreateVoucher voucher env) =
     (case createVoucher db voucher env of Inl e \<Rightarrow> db | Inr (row, db') \<Rightarrow> db')"
| "step db (PaymentsProcess user dealId isSuccessful tCode tExpiry tTx env) =
     snd (post_payments_process db user dealId isSuccessful tCode tExpiry tTx env)"
| "step db (PatchUse user voucherId tUse) = snd (patch_vouchers_use db user voucherId tUse)"
| "step db (Verify code now) = snd (post_business_vouchers_verify db code now)"
| "step db (Redeem code businessId now tUse tResp) =
     snd (post_business_vouchers_redeem db code businessId now tUse tResp)"
| "step db (AutoRedeem businessId code env) = handleAutoRedeemVoucher db businessId code env"


text \<open>The voucher invariant of the data model, and the payments of one voucher.\<close>

definition usedAt_iff_used :: "vouchers_row \<Rightarrow> bool" where
  "usedAt_iff_used v = (v_usedAt v \<noteq> None \<longleftrightarrow> v_status v = Some ''used'')"



section \<open>Example data\<close>

text \<open>
  The scenario of the specification: voucher code \<open>DS-1700000000000-AB12CD\<close>, status
  \<open>active\<close>, issued at 1700000000000 and expiring 30 days later, on a deal of business
  \<open>b1\<close>.
\<close>

definition scenario_voucher :: vouchers_row where
  "scenario_voucher =
     \<lparr>v_id = ''v1'', v_userId = ''u1'', v_dealId = ''d1'',
      v_code = ''DS-1700000000000-AB12CD'', v_status = Some ''active'',
      v_purchasedAt = Some 1700000000000, v_usedAt = None,
      v_expiresAt = 1702592000000\<rparr>"

definition scenario_business :: businesses_row where
  "scenario_business =
     \<lparr>b_id = ''b1'', b_name = ''Loetje'', b_address = ''Ruysdaelkade 15'',
      b_city = ''Amsterdam''\<rparr>"

definition scenario_db :: database where
  "scenario_db =
     \<lparr>users = [\<lparr>u_id = ''u1'', u_email = Some ''demo@dealspot.nl''\<rparr>],
      businesses = [scenario_business,
                    \<lparr>b_id = ''b2'', b_name = ''Zen Spa'', b_address = ''Herengracht 100'',
                     b_city = ''Amsterdam''\<rparr>],
      deals = [\<lparr>d_id = ''d1'', d_businessId = ''b1'', d_title = ''3-gangen menu'',
                d_description = ''Diner voor twee'', d_originalPrice = 5000,
                d_discountedPrice = 2500, d_discountPercentage = 50\<rparr>],
      vouchers = [scenario_voucher],
      notifications = [],
      business_payments = []\<rparr>"

text \<open>An issuance at 1700000000000 with a random number whose base-36 rendering is long.\<close>

definition issue_env :: voucher_env where
  "issue_env = \<lparr>e_nowCode = 1700000000000, e_random36 = ''0.k3x9qz7m1p'', e_uuid = ''v2'',
                e_nowExpiry = 1700000000001, e_dbNow = 1700000000002\<rparr>"

text \<open>One run of the scan-and-redeem flow, half a second after the issuance.\<close>

definition scenario_flow_env :: flow_env where
  "scenario_flow_env =
     \<lparr>f_tVerify = 1700000500000, f_tRedeem = 1700000500100, f_tUse = 1700000500101,
      f_tResp = 1700000500102, f_notificationId = ''n1'', f_tNotification = 1700000500200,
      f_paymentId = ''p1'', f_tPayment = 1700000500300, f_tTransfer = 1700000500301\<rparr>"

section \<open>Properties of the voucher life cycle\<close>

subsection \<open>The conditional update\<close>

lemma useVoucher_success_iff:
  "fst (useVoucher db vid now) \<longleftrightarrow> (\<exists>v \<in> set (vouchers db). use_matches vid v)"
  by (simp add: useVoucher_def Let_def filter_empty_conv)

lemma mark_used_not_match: "\<not> use_matches vid (mark_used now v)"
  by (simp add: use_matches_def mark_used_def)

lemma useVoucher_vouchers:
  "vouchers (snd (useVoucher db vid now)) =
     map (\<lambda>v. if use_matches vid v then mark_used now v else v) (vouchers db)"
  by (simp add: useVoucher_def Let_def)

lemma useVoucher_no_match_left:
  "w \<in> set (vouchers (snd (useVoucher db vid now))) \<Longrightarrow> \<not> use_matches vid w"
  by (auto simp: useVoucher_vouchers mark_used_not_match split: if_splits)

lemma useVoucher_failure_unchanged:
  "\<not> fst (useVoucher db vid now) \<Longrightarrow> snd (useVoucher db vid now) = db"
proof -
  assume "\<not> fst (useVoucher db vid now)"
  then have "\<forall>v \<in> set (vouchers db). \<not> use_matches vid v"
    by (simp add: useVoucher_success_iff)
  then have "map (\<lambda>v. if use_matches vid v then mark_used now v else v) (vouchers db)
               = vouchers db"
    by (simp add: map_idI)
  then show ?thesis by (simp add: useVoucher_def Let_def)
qed

lemma useVoucher_other_tables:
  "users (snd (useVoucher db vid now)) = users db"
  "businesses (snd (useVoucher db vid now)) = businesses db"
  "deals (snd (useVoucher db vid now)) = deals db"
  "notifications (snd (useVoucher db vid now)) = notifications db"
  "business_payments (snd (useVoucher db vid now)) = business_payments db"
  by (simp_all add: useVoucher_def Let_def)

lemma useVoucher_second_fails:
  "\<not> fst (useVoucher (snd (useVoucher db vid t1)) vid t2)"
  using useVoucher_no_match_left by (auto simp: useVoucher_success_iff)

lemma useVoucher_ids:
  "map v_id (vouchers (snd (useVoucher db vid t))) = map v_id (vouchers db)"
  by (simp add: useVoucher_vouchers mark_used_def)


text \<open>
  Claim C1.  \<open>useVoucher\<close> is a compare-and-set on \<open>status\<close>: it reports success exactly
  when a row with the given id is stored as \<open>active\<close>; it rewrites exactly those rows, to
  status \<open>used\<close> with \<open>usedAt\<close> the time of the call, and nothing else in the store; when it
  reports failure the store is unchanged.  A second attempt on the same id, made on the
  store the first attempt left, always reports failure and changes nothing, so of two
  successive attempts on a voucher stored as \<open>active\<close> exactly one succeeds: the first.
\<close>

theorem useVoucher_compare_and_set:
  "(case useVoucher db vid t1 of (ok1, db1) \<Rightarrow>
      (case useVoucher db1 vid t2 of (ok2, db2) \<Rightarrow>
        (ok1 \<longleftrightarrow> (\<exists>v \<in> set (vouchers db). v_id v = vid \<and> v_status v = Some ''active'')) \<and>
        length (vouchers db1) = length (vouchers db) \<and>
        (\<forall>i < length (vouchers db).
           vouchers db1 ! i =
             (if v_id (vouchers db ! i) = vid \<and> v_status (vouchers db ! i) = Some ''active''
              then (vouchers db ! i)\<lparr>v_status := Some ''used'', v_usedAt := Some t1\<rparr>
              else vouchers db ! i)) \<and>
        db1 = db\<lparr>vouchers := vouchers db1\<rparr> \<and>
        (\<not> ok1 \<longrightarrow> db1 = db) \<and>
        \<not> ok2 \<and> db2 = db1 \<and>
        ((\<exists>v \<in> set (vouchers db). v_id v = vid \<and> v_status v = Some ''active'')
           \<longrightarrow> ok1 \<and> \<not> ok2)))"
proof -
  obtain ok1 db1 where r1: "useVoucher db vid t1 = (ok1, db1)"
    by (cases "useVoucher db vid t1")
  obtain ok2 db2 where r2: "useVoucher db1 vid t2 = (ok2, db2)"
    by (cases "useVoucher db1 vid t2")
  have ok1: "ok1 \<longleftrightarrow> (\<exists>v \<in> set (vouchers db). v_id v = vid \<and> v_status v = Some ''active'')"
    using useVoucher_success_iff [of db vid t1] r1 by (simp add: use_matches_def)
  have rows: "vouchers db1 =
                map (\<lambda>v. if use_matches vid v then mark_used t1 v else v) (vouchers db)"
    using useVoucher_vouchers [of db vid t1] r1 by simp
  have frame: "db1 = db\<lparr>vouchers := vouchers db1\<rparr>"
    using r1 by (auto simp: useVoucher_def Let_def)
  have unchanged: "\<not> ok1 \<Longrightarrow> db1 = db"
    using useVoucher_failure_unchanged [of db vid t1] r1 by simp
  have ok2: "\<not> ok2"
    using useVoucher_second_fails [of db vid t1 t2] r1 r2 by simp
  have db2: "db2 = db1"
    using useVoucher_failure_unchanged [of db1 vid t2] r2 ok2 by simp
  have rowwise: "\<forall>i < length (vouchers db).
           vouchers db1 ! i =
             (if v_id (vouchers db ! i) = vid \<and> v_status (vouchers db ! i) = Some ''active''
              then (vouchers db ! i)\<lparr>v_status := Some ''used'', v_usedAt := Some t1\<rparr>
              else vouchers db ! i)"
    by (simp add: rows use_matches_def mark_used_def)
  have len: "length (vouchers db1) = length (vouchers db)"
    by (simp add: rows)
  show ?thesis
    unfolding r1 r2 prod.case
    using ok1 len rowwise frame unchanged ok2 db2 by blast
qed

theorem useVoucher_compare_and_set_witness:
  "fst (useVoucher scenario_db ''v1'' 1700000500000) \<and>
   \<not> fst (useVoucher (snd (useVoucher scenario_db ''v1'' 1700000500000)) ''v1''
            1700000500009) \<and>
   vouchers (snd (useVoucher scenario_db ''v1'' 1700000500000)) =
     [scenario_voucher\<lparr>v_status := Some ''used'', v_usedAt := Some 1700000500000\<rparr>]"
  using useVoucher_compare_and_set [of scenario_db "''v1''" 1700000500000 1700000500009]
  by (simp add: scenario_db_def scenario_voucher_def useVoucher_def use_matches_def
      mark_used_def)

subsection \<open>Verification and redemption routes\<close>

lemma find_map_preserving:
  "(\<And>x. P (f x) = P x) \<Longrightarrow> find P (map f xs) = map_option f (find P xs)"
  by (induction xs) simp_all

lemma find_code_after_use:
  "find (\<lambda>v. v_code v = c) (vouchers (snd (useVoucher db vid now))) =
     map_option (\<lambda>v. if use_matches vid v then mark_used now v else v)
       (find (\<lambda>v. v_code v = c) (vouchers db))"
  unfolding useVoucher_vouchers
  by (rule find_map_preserving) (simp add: mark_used_def)

lemma join_voucher_tables:
  "deals db' = deals db \<Longrightarrow> businesses db' = businesses db \<Longrightarrow> users db' = users db
     \<Longrightarrow> join_voucher db' w = join_voucher db w"
  by (simp add: join_voucher_def Let_def split: option.splits)

lemma join_voucher_after_use:
  "join_voucher (snd (useVoucher db vid now)) w = join_voucher db w"
  by (rule join_voucher_tables) (simp_all add: useVoucher_other_tables)

lemma join_voucher_mark_used:
  "join_voucher db (mark_used t v) =
     (join_voucher db v)\<lparr>vv_status := Some ''used'', vv_usedAt := Some t\<rparr>"
  by (simp add: join_voucher_def mark_used_def Let_def)

lemma join_voucher_fields:
  "vv_id (join_voucher db v) = v_id v"
  "vv_status (join_voucher db v) = v_status v"
  "vv_expiresAt (join_voucher db v) = v_expiresAt v"
  "vv_code (join_voucher db v) = v_code v"
  by (simp_all add: join_voucher_def Let_def)

lemma redeem_checks_accept:
  assumes "redeem_checks db code businessId now = Inr voucher"
  shows "\<exists>c bid v b. code = Some c \<and> c \<noteq> [] \<and> businessId = Some bid \<and> bid \<noteq> [] \<and>
           find (\<lambda>v. v_code v = c) (vouchers db) = Some v \<and> voucher = join_voucher db v \<and>
           vv_business voucher = Some b \<and> b_id b = bid \<and>
           \<not> v_expiresAt v < now \<and> v_status v = Some ''active''"
  using assms
  by (auto simp: redeem_checks_def verifyVoucherByCode_def join_voucher_fields
           split: option.splits if_splits)

lemma redeem_checks_reject_code:
  "redeem_checks db code businessId now = Inl r \<Longrightarrow> fst r \<noteq> 200"
  by (auto simp: redeem_checks_def split: option.splits if_splits)

lemma find_SomeD: "find P xs = Some x \<Longrightarrow> x \<in> set xs \<and> P x"
  by (induction xs) (auto split: if_splits)

lemma redeem_commit_active:
  assumes "find (\<lambda>v. v_code v = c) (vouchers db) = Some v" "v_status v = Some ''active''"
  shows "redeem_commit db (join_voucher db v) tUse tResp =
           ((200, Redemption True ''Voucher redeemed successfully''
                    ((join_voucher db v)\<lparr>vv_status := Some ''used'', vv_usedAt := Some tResp\<rparr>)),
            snd (useVoucher db (v_id v) tUse))"
proof -
  have "v \<in> set (vouchers db)" using assms(1) find_SomeD by fastforce
  then have "fst (useVoucher db (v_id v) tUse)"
    using assms(2) by (auto simp: useVoucher_success_iff use_matches_def)
  then show ?thesis
    by (cases "useVoucher db (v_id v) tUse") (simp add: redeem_commit_def join_voucher_fields)
qed

lemma redeem_rejection_unchanged:
  assumes "post_business_vouchers_redeem db code businessId now tUse tResp = (resp, db')"
      and "fst resp \<noteq> 200"
  shows "db' = db"
proof (cases "redeem_checks db code businessId now")
  case (Inl r)
  then show ?thesis using assms by (simp add: post_business_vouchers_redeem_def)
next
  case (Inr voucher)
  then obtain c v where "find (\<lambda>v. v_code v = c) (vouchers db) = Some v"
      "voucher = join_voucher db v" "v_status v = Some ''active''"
    using redeem_checks_accept by blast
  then have "fst resp = 200"
    using assms(1) Inr redeem_commit_active [of c db v tUse tResp]
    by (auto simp: post_business_vouchers_redeem_def)
  then show ?thesis using assms(2) by simp
qed


lemmas scenario_simps =
  scenario_db_def scenario_voucher_def scenario_business_def
  post_business_vouchers_redeem_def redeem_checks_def redeem_commit_def
  post_business_vouchers_verify_def patch_vouchers_use_def
  verifyVoucherByCode_def join_voucher_def deal_fields_def
  useVoucher_def use_matches_def mark_used_def Let_def






lemma redeem_success_shape:
  assumes "post_business_vouchers_redeem db code businessId now tUse tResp = (resp, db1)"
      and "fst resp = 200"
  shows "\<exists>c bid v b. code = Some c \<and> c \<noteq> [] \<and> businessId = Some bid \<and> bid \<noteq> [] \<and>
           find (\<lambda>v. v_code v = c) (vouchers db) = Some v \<and>
           vv_business (join_voucher db v) = Some b \<and> b_id b = bid \<and>
           \<not> v_expiresAt v < now \<and> v_status v = Some ''active'' \<and>
           db1 = snd (useVoucher db (v_id v) tUse)"
proof (cases "redeem_checks db code businessId now")
  case (Inl r)
  then show ?thesis
    using assms redeem_checks_reject_code [of db code businessId now r]
    by (simp add: post_business_vouchers_redeem_def)
next
  case (Inr voucher)
  then obtain c bid v b where f: "code = Some c" "c \<noteq> []" "businessId = Some bid" "bid \<noteq> []"
      "find (\<lambda>v. v_code v = c) (vouchers db) = Some v" "voucher = join_voucher db v"
      "vv_business voucher = Some b" "b_id b = bid" "\<not> v_expiresAt v < now"
      "v_status v = Some ''active''"
    using redeem_checks_accept by blast
  have "(resp, db1) = redeem_commit db (join_voucher db v) tUse tResp"
    using assms(1) Inr f(6) by (simp add: post_business_vouchers_redeem_def)
  then have "db1 = snd (useVoucher db (v_id v) tUse)"
    using redeem_commit_active [of c db v tUse tResp] f by simp
  then show ?thesis using f by blast
qed

lemma find_code_after_redeem:
  assumes "find (\<lambda>v. v_code v = c) (vouchers db) = Some v" "v_status v = Some ''active''"
  shows "find (\<lambda>v. v_code v = c) (vouchers (snd (useVoucher db (v_id v) tUse)))
           = Some (mark_used tUse v)"
  using assms by (simp add: find_code_after_use use_matches_def)

text \<open>
  Claim C5 (amended).  After a successful redemption the voucher found under the code
  is stored as \<open>used\<close>, and every further redemption request for that code, by whatever
  business and at whatever time, is rejected and leaves the store (vouchers,
  notifications and payments) as it is.  From the same business the rejection is 400
  "Voucher is not active", or 400 "Voucher has expired" once the expiry has passed.
\<close>

theorem redeem_resubmission_rejected:
  assumes "post_business_vouchers_redeem db code businessId now tUse tResp = (resp, db1)"
      and "fst resp = 200"
  shows "(\<forall>businessId' now' tUse' tResp'.
            fst (fst (post_business_vouchers_redeem db1 code businessId' now' tUse' tResp'))
              \<noteq> 200 \<and>
            snd (post_business_vouchers_redeem db1 code businessId' now' tUse' tResp') = db1) \<and>
         (\<exists>c v. code = Some c \<and>
            find (\<lambda>v. v_code v = c) (vouchers db) = Some v \<and>
            find (\<lambda>v. v_code v = c) (vouchers db1)
              = Some (v\<lparr>v_status := Some ''used'', v_usedAt := Some tUse\<rparr>) \<and>
            (\<forall>now' tUse' tResp'.
               fst (post_business_vouchers_redeem db1 code businessId now' tUse' tResp') =
                 (if v_expiresAt v < now' then (400, Message ''Voucher has expired'')
                  else (400, Message ''Voucher is not active''))))"
proof -
  obtain c bid v b where f: "code = Some c" "c \<noteq> []" "businessId = Some bid" "bid \<noteq> []"
      "find (\<lambda>v. v_code v = c) (vouchers db) = Some v"
      "vv_business (join_voucher db v) = Some b" "b_id b = bid"
      "v_status v = Some ''active''" "db1 = snd (useVoucher db (v_id v) tUse)"
    using redeem_success_shape [OF assms] by blast
  have found1: "find (\<lambda>v. v_code v = c) (vouchers db1) = Some (mark_used tUse v)"
    using find_code_after_redeem [OF f(5) f(8)] f(9) by simp
  have view1: "verifyVoucherByCode db1 c =
                 Some ((join_voucher db v)\<lparr>vv_status := Some ''used'', vv_usedAt := Some tUse\<rparr>)"
    using found1 f(9)
    by (simp add: verifyVoucherByCode_def join_voucher_after_use join_voucher_mark_used)
  have rejected: "\<exists>r. redeem_checks db1 code businessId' now' = Inl r \<and> fst r \<noteq> 200"
    for businessId' now'
  proof (cases "redeem_checks db1 code businessId' now'")
    case (Inl r)
    then show ?thesis using redeem_checks_reject_code by blast
  next
    case (Inr voucher)
    then obtain c' v' where "code = Some c'"
        "find (\<lambda>v. v_code v = c') (vouchers db1) = Some v'" "v_status v' = Some ''active''"
      using redeem_checks_accept by blast
    then show ?thesis using found1 f(1) by (simp add: mark_used_def)
  qed
  have all: "fst (fst (post_business_vouchers_redeem db1 code businessId' now' tUse' tResp'))
              \<noteq> 200 \<and>
            snd (post_business_vouchers_redeem db1 code businessId' now' tUse' tResp') = db1"
    for businessId' now' tUse' tResp'
    using rejected [of businessId' now']
    by (auto simp: post_business_vouchers_redeem_def)
  have same: "fst (post_business_vouchers_redeem db1 code businessId now' tUse' tResp') =
                 (if v_expiresAt v < now' then (400, Message ''Voucher has expired'')
                  else (400, Message ''Voucher is not active''))"
    for now' tUse' tResp'
    using f view1
    by (simp add: post_business_vouchers_redeem_def redeem_checks_def join_voucher_fields)
  show ?thesis
    using all same f(1) f(5) found1 by (auto simp: mark_used_def)
qed

text \<open>The scenario's voucher redeemed by \<open>b1\<close>, then submitted again.\<close>

theorem redeem_resubmission_rejected_witness:
  "fst (fst (post_business_vouchers_redeem scenario_db (Some ''DS-1700000000000-AB12CD'')
               (Some ''b1'') 1700000500000 1700000500001 1700000500002)) = 200 \<and>
   post_business_vouchers_redeem
       (snd (post_business_vouchers_redeem scenario_db (Some ''DS-1700000000000-AB12CD'')
               (Some ''b1'') 1700000500000 1700000500001 1700000500002))
       (Some ''DS-1700000000000-AB12CD'') (Some ''b1'')
       1700000600000 1700000600001 1700000600002 =
     ((400, Message ''Voucher is not active''),
      scenario_db\<lparr>vouchers := [scenario_voucher\<lparr>v_status := Some ''used'',
                                                  v_usedAt := Some 1700000500001\<rparr>]\<rparr>)"
  using redeem_resubmission_rejected [of scenario_db "Some ''DS-1700000000000-AB12CD''"
      "Some ''b1''" 1700000500000 1700000500001 1700000500002
      "fst (post_business_vouchers_redeem scenario_db (Some ''DS-1700000000000-AB12CD'')
               (Some ''b1'') 1700000500000 1700000500001 1700000500002)"
      "snd (post_business_vouchers_redeem scenario_db (Some ''DS-1700000000000-AB12CD'')
               (Some ''b1'') 1700000500000 1700000500001 1700000500002)"]
  by (simp add: scenario_simps)

text \<open>
  As stated, C5 fails: the resubmission is not reported as "already used" (the words of
  the verification route); the redemption route answers "Voucher is not active", and
  after the expiry "Voucher has expired".
\<close>

theorem redeem_resubmission_counterexample:
  "fst (fst (post_business_vouchers_redeem scenario_db (Some ''DS-1700000000000-AB12CD'')
               (Some ''b1'') 1700000500000 1700000500001 1700000500002)) = 200 \<and>
   fst (post_business_vouchers_redeem
       (snd (post_business_vouchers_redeem scenario_db (Some ''DS-1700000000000-AB12CD'')
               (Some ''b1'') 1700000500000 1700000500001 1700000500002))
       (Some ''DS-1700000000000-AB12CD'') (Some ''b1'')
       1700000600000 1700000600001 1700000600002) =
     (400, Message ''Voucher is not active'') \<and>
   fst (post_business_vouchers_redeem
       (snd (post_business_vouchers_redeem scenario_db (Some ''DS-1700000000000-AB12CD'')
               (Some ''b1'') 1700000500000 1700000500001 1700000500002))
       (Some ''DS-1700000000000-AB12CD'') (Some ''b1'')
       1800000000000 1800000000001 1800000000002) =
     (400, Message ''Voucher has expired'')"
  by (simp add: scenario_simps)

text \<open>
  Two redemption requests that both passed their checks on the same store, before either
  wrote: whichever update runs first succeeds, and the other finds no row to update,
  answers 400 "Failed to redeem voucher" and changes nothing.
\<close>

lemma concurrent_redeem_commits:
  assumes a: "redeem_checks db code businessId now = Inr va"
      and b: "redeem_checks db code businessId' now' = Inr vb"
      and ca: "redeem_commit db va tUse tResp = (ra, dba)"
      and cb: "redeem_commit dba vb tUse' tResp' = (rb, dbb)"
  shows "fst ra = 200 \<and> rb = (400, Message ''Failed to redeem voucher'') \<and> dbb = dba"
proof -
  obtain c v where v: "code = Some c" "find (\<lambda>v. v_code v = c) (vouchers db) = Some v"
      "va = join_voucher db v" "v_status v = Some ''active''"
    using redeem_checks_accept [OF a] by blast
  obtain c' v' where v': "code = Some c'" "find (\<lambda>v. v_code v = c') (vouchers db) = Some v'"
      "vb = join_voucher db v'"
    using redeem_checks_accept [OF b] by blast
  have same: "vv_id vb = v_id v" using v v' by (simp add: join_voucher_fields)
  have "(ra, dba) = ((200, Redemption True ''Voucher redeemed successfully''
                    ((join_voucher db v)\<lparr>vv_status := Some ''used'', vv_usedAt := Some tResp\<rparr>)),
            snd (useVoucher db (v_id v) tUse))"
    using redeem_commit_active [OF v(2) v(4), of tUse tResp] ca v(3) by simp
  then have ra: "fst ra = 200" and dba: "dba = snd (useVoucher db (v_id v) tUse)" by simp_all
  have fails: "\<not> fst (useVoucher dba (vv_id vb) tUse')"
    unfolding dba same by (rule useVoucher_second_fails)
  then have "snd (useVoucher dba (vv_id vb) tUse') = dba"
    by (rule useVoucher_failure_unchanged)
  then have "rb = (400, Message ''Failed to redeem voucher'') \<and> dbb = dba"
    using cb fails by (cases "useVoucher dba (vv_id vb) tUse'") (simp add: redeem_commit_def)
  then show ?thesis using ra by simp
qed

text \<open>
  Claim C10.  For every voucher stored as \<open>active\<close>, \<open>PATCH /api/vouchers/:id/use\<close>
  succeeds for any authenticated user and any expiry: it answers 200, the row is stored
  as \<open>used\<close> with \<open>usedAt\<close> the time of the call, and no row with that id is left
  \<open>active\<close>.  The business redemption route rejects the same voucher, unchanged, when it
  has expired or when its deal does not belong to the claiming business.
\<close>

theorem patch_use_ignores_expiry_and_owner:
  assumes "v \<in> set (vouchers db)" "v_status v = Some ''active''"
      and "patch_vouchers_use db user (v_id v) tUse = (resp, db')"
  shows "resp = (200, Message ''Voucher used successfully'') \<and>
         v\<lparr>v_status := Some ''used'', v_usedAt := Some tUse\<rparr> \<in> set (vouchers db') \<and>
         (\<forall>w \<in> set (vouchers db'). v_id w = v_id v \<longrightarrow> v_status w \<noteq> Some ''active'') \<and>
         db' = snd (useVoucher db (v_id v) tUse) \<and>
         (\<forall>c bid now t1 t2.
            find (\<lambda>w. v_code w = c) (vouchers db) = Some v \<and>
            (v_expiresAt v < now \<or>
             (\<forall>b. vv_business (join_voucher db v) = Some b \<longrightarrow> b_id b \<noteq> bid)) \<longrightarrow>
            fst (fst (post_business_vouchers_redeem db (Some c) (Some bid) now t1 t2)) \<noteq> 200 \<and>
            snd (post_business_vouchers_redeem db (Some c) (Some bid) now t1 t2) = db)"
proof -
  have ok: "fst (useVoucher db (v_id v) tUse)"
    using assms(1,2) by (auto simp: useVoucher_success_iff use_matches_def)
  then have r: "resp = (200, Message ''Voucher used successfully'')"
       and d: "db' = snd (useVoucher db (v_id v) tUse)"
    using assms(3) by (cases "useVoucher db (v_id v) tUse"; simp add: patch_vouchers_use_def)+
  have "mark_used tUse v \<in> set (vouchers db')"
    using assms(1,2) unfolding d useVoucher_vouchers by (force simp: use_matches_def)
  then have m: "v\<lparr>v_status := Some ''used'', v_usedAt := Some tUse\<rparr> \<in> set (vouchers db')"
    by (simp add: mark_used_def)
  have n: "\<forall>w \<in> set (vouchers db'). v_id w = v_id v \<longrightarrow> v_status w \<noteq> Some ''active''"
    using useVoucher_no_match_left [of _ db "v_id v" tUse] unfolding d
    by (auto simp: use_matches_def)
  have c: "fst (fst (post_business_vouchers_redeem db (Some c) (Some bid) now t1 t2)) \<noteq> 200 \<and>
            snd (post_business_vouchers_redeem db (Some c) (Some bid) now t1 t2) = db"
    if h: "find (\<lambda>w. v_code w = c) (vouchers db) = Some v \<and>
            (v_expiresAt v < now \<or>
             (\<forall>b. vv_business (join_voucher db v) = Some b \<longrightarrow> b_id b \<noteq> bid))"
    for c bid now t1 t2
  proof (cases "redeem_checks db (Some c) (Some bid) now")
    case (Inl r)
    then show ?thesis
      using redeem_checks_reject_code [of db "Some c" "Some bid" now r]
      by (simp add: post_business_vouchers_redeem_def)
  next
    case (Inr voucher)
    then have False
      using redeem_checks_accept [of db "Some c" "Some bid" now voucher] h by auto
    then show ?thesis ..
  qed
  show ?thesis using r m n d c by blast
qed

text \<open>The scenario's voucher used after its expiry by a user who does not own it.\<close>

theorem patch_use_ignores_expiry_and_owner_witness:
  "scenario_voucher \<in> set (vouchers scenario_db) \<and>
   v_status scenario_voucher = Some ''active'' \<and>
   v_expiresAt scenario_voucher < 1800000000000 \<and>
   patch_vouchers_use scenario_db ''someone-else'' ''v1'' 1800000000000 =
     ((200, Message ''Voucher used successfully''),
      scenario_db\<lparr>vouchers := [scenario_voucher\<lparr>v_status := Some ''used'',
                                                  v_usedAt := Some 1800000000000\<rparr>]\<rparr>) \<and>
   fst (fst (post_business_vouchers_redeem scenario_db (Some ''DS-1700000000000-AB12CD'')
               (Some ''b1'') 1800000000000 1800000000001 1800000000002)) \<noteq> 200"
proof -
  have a: "scenario_voucher \<in> set (vouchers scenario_db)"
    by (simp add: scenario_db_def)
  have b: "v_status scenario_voucher = Some ''active''"
    by (simp add: scenario_voucher_def)
  have e: "v_expiresAt scenario_voucher < 1800000000000"
    by (simp add: scenario_voucher_def)
  have c: "patch_vouchers_use scenario_db ''someone-else'' (v_id scenario_voucher)
             1800000000000 =
           ((200, Message ''Voucher used successfully''),
            scenario_db\<lparr>vouchers := [scenario_voucher\<lparr>v_status := Some ''used'',
                                                  v_usedAt := Some 1800000000000\<rparr>]\<rparr>)"
    by (simp add: scenario_db_def scenario_voucher_def patch_vouchers_use_def useVoucher_def
        use_matches_def mark_used_def)
  have f: "find (\<lambda>w. v_code w = ''DS-1700000000000-AB12CD'') (vouchers scenario_db)
             = Some scenario_voucher"
    by (simp add: scenario_db_def scenario_voucher_def)
  note t = patch_use_ignores_expiry_and_owner [OF a b c]
  have "fst (fst (post_business_vouchers_redeem scenario_db (Some ''DS-1700000000000-AB12CD'')
               (Some ''b1'') 1800000000000 1800000000001 1800000000002)) \<noteq> 200"
    using t f e by blast
  moreover have "v_id scenario_voucher = ''v1''" by (simp add: scenario_voucher_def)
  ultimately show ?thesis using a b e c by simp
qed

subsection \<open>Issuing\<close>

lemma show_int_1700000000000: "show_int 1700000000000 = ''1700000000000''"
  by (simp add: show_int_def show_nat.simps)

lemma createVoucher_Inr:
  "createVoucher db voucher env = Inr (row, db') \<Longrightarrow>
     row = new_voucher_row voucher env \<and> db' = db\<lparr>vouchers := vouchers db @ [row]\<rparr> \<and>
     v_id row \<notin> set (map v_id (vouchers db)) \<and> v_code row \<notin> set (map v_code (vouchers db)) \<and>
     v_userId row \<in> set (map u_id (users db)) \<and> v_dealId row \<in> set (map d_id (deals db))"
  by (auto simp: createVoucher_def Let_def split: if_splits)

lemma createVoucher_Inl:
  "createVoucher db voucher env = Inl e \<Longrightarrow>
     e_uuid env \<in> set (map v_id (vouchers db)) \<or>
     generated_code env \<in> set (map v_code (vouchers db)) \<or>
     iv_userId voucher \<notin> set (map u_id (users db)) \<or>
     iv_dealId voucher \<notin> set (map d_id (deals db))"
  by (auto simp: createVoucher_def new_voucher_row_def Let_def split: if_splits)

text \<open>
  Claim C7.  When the request carries no expiry, the row that \<open>createVoucher\<close> stores
  expires exactly 30 days (2592000000 ms) after the time \<open>createVoucher\<close> reads for it;
  the insert succeeds unless the generated id or code is already stored or the user or
  deal does not exist.
\<close>

theorem createVoucher_default_expiry:
  assumes "iv_expiresAt voucher = None"
  shows "(case createVoucher db voucher env of
            Inl e \<Rightarrow>
              e_uuid env \<in> set (map v_id (vouchers db)) \<or>
              generated_code env \<in> set (map v_code (vouchers db)) \<or>
              iv_userId voucher \<notin> set (map u_id (users db)) \<or>
              iv_dealId voucher \<notin> set (map d_id (deals db))
          | Inr (row, db') \<Rightarrow>
              v_expiresAt row = e_nowExpiry env + 2592000000 \<and>
              v_expiresAt row - e_nowExpiry env = 30 * (24 * 60 * 60 * 1000) \<and>
              vouchers db' = vouchers db @ [row])"
proof (cases "createVoucher db voucher env")
  case (Inl e)
  then show ?thesis using createVoucher_Inl by simp
next
  case (Inr r)
  obtain row db' where r: "r = (row, db')" by (cases r)
  have "row = new_voucher_row voucher env" "db' = db\<lparr>vouchers := vouchers db @ [row]\<rparr>"
    using createVoucher_Inr Inr r by blast+
  then show ?thesis using assms Inr r by (simp add: new_voucher_row_def)
qed

text \<open>An issuance without expiry on the scenario's store.\<close>

theorem createVoucher_default_expiry_witness:
  "createVoucher scenario_db
      \<lparr>iv_userId = ''u1'', iv_dealId = ''d1'', iv_code = ''V1700000000000'',
       iv_status = None, iv_usedAt = None, iv_expiresAt = None\<rparr> issue_env =
   Inr (\<lparr>v_id = ''v2'', v_userId = ''u1'', v_dealId = ''d1'', v_code = ''DS-1700000000000-K3X9QZ'',
         v_status = Some ''active'', v_purchasedAt = Some 1700000000002, v_usedAt = None,
         v_expiresAt = 1702592000001\<rparr>,
        scenario_db\<lparr>vouchers := [scenario_voucher,
          \<lparr>v_id = ''v2'', v_userId = ''u1'', v_dealId = ''d1'', v_code = ''DS-1700000000000-K3X9QZ'',
         v_status = Some ''active'', v_purchasedAt = Some 1700000000002, v_usedAt = None,
         v_expiresAt = 1702592000001\<rparr>]\<rparr>)"
  using createVoucher_default_expiry [where db = scenario_db and env = issue_env and voucher =
      "\<lparr>iv_userId = ''u1'', iv_dealId = ''d1'', iv_code = ''V1700000000000'',
       iv_status = None, iv_usedAt = None, iv_expiresAt = None\<rparr>"]
  by (simp add: createVoucher_def new_voucher_row_def generated_code_def issue_env_def
      show_int_1700000000000 substr_def toUpperCase_def toUpperCase_char_def
      scenario_db_def scenario_voucher_def Let_def)

lemma createVoucher_code:
  "createVoucher db voucher env = Inr (row, db') \<Longrightarrow>
     v_code row = generated_code env \<and> take 3 (v_code row) = ''DS-''"
  by (auto simp: createVoucher_def new_voucher_row_def generated_code_def Let_def
           split: if_splits)

lemma generated_code_suffix:
  "\<exists>suffix. generated_code env = ''DS-'' @ show_int (e_nowCode env) @ ''-'' @ suffix \<and>
     length suffix \<le> 6 \<and> (8 \<le> length (e_random36 env) \<longrightarrow> length suffix = 6)"
  by (auto simp: generated_code_def substr_def toUpperCase_def)

text \<open>
  Claim C8 (the code departs from it).  The stored code is always the generated one,
  with the \<open>DS-\<close> prefix, whatever code the caller supplies; but its suffix has six
  characters only when the base-36 rendering of the random number has at least six
  digits after the point.  \<open>Math.random()\<close> returning 0.5 renders as \<open>0.i\<close> and gives a
  one-character suffix; returning 0 renders as \<open>0\<close> and gives an empty one.
\<close>

theorem createVoucher_short_suffix:
  "map_sum id (v_code \<circ> fst)
     (createVoucher scenario_db
        \<lparr>iv_userId = ''u1'', iv_dealId = ''d1'', iv_code = ''V1700000000000'',
         iv_status = None, iv_usedAt = None, iv_expiresAt = Some 1702592000000\<rparr>
        \<lparr>e_nowCode = 1700000000000, e_random36 = ''0.i'', e_uuid = ''v2'',
         e_nowExpiry = 1700000000001, e_dbNow = 1700000000002\<rparr>)
     = Inr ''DS-1700000000000-I'' \<and>
   map_sum id (v_code \<circ> fst)
     (createVoucher scenario_db
        \<lparr>iv_userId = ''u1'', iv_dealId = ''d1'', iv_code = ''V1700000000000'',
         iv_status = None, iv_usedAt = None, iv_expiresAt = Some 1702592000000\<rparr>
        \<lparr>e_nowCode = 1700000000000, e_random36 = ''0'', e_uuid = ''v2'',
         e_nowExpiry = 1700000000001, e_dbNow = 1700000000002\<rparr>)
     = Inr ''DS-1700000000000-''"
  by (simp add: createVoucher_def new_voucher_row_def generated_code_def
      show_int_1700000000000 substr_def toUpperCase_def toUpperCase_char_def
      scenario_db_def scenario_voucher_def Let_def)

subsection \<open>The scan-and-redeem flow\<close>

lemma post_notifications_frame:
  "vouchers (snd (post_notifications db u t m ty uuid now)) = vouchers db"
  "business_payments (snd (post_notifications db u t m ty uuid now)) = business_payments db"
  "businesses (snd (post_notifications db u t m ty uuid now)) = businesses db"
  by (auto simp: post_notifications_def createNotification_def Let_def split: sum.splits if_splits)

lemma sendRedemptionNotification_frame:
  "vouchers (sendRedemptionNotification db voucher env) = vouchers db"
  "business_payments (sendRedemptionNotification db voucher env) = business_payments db"
  "businesses (sendRedemptionNotification db voucher env) = businesses db"
  by (auto simp: sendRedemptionNotification_def post_notifications_frame split: option.splits)

lemma post_business_payments_process_cases:
  "snd (post_business_payments_process db bid vid amount descr uuid t1 t2) = db \<or>
   (bid \<in> set (map b_id (businesses db)) \<and> vid \<in> set (map v_id (vouchers db)) \<and>
    snd (post_business_payments_process db bid vid amount descr uuid t1 t2) =
      db\<lparr>business_payments := business_payments db @
           [\<lparr>p_id = uuid, p_businessId = bid, p_voucherId = vid, p_amount = amount,
             p_description = descr, p_stripeTransferId = None,
             p_status = Some ''completed'', p_createdAt = Some t1\<rparr>]\<rparr>)"
proof (cases "uuid \<in> set (map p_id (business_payments db)) \<or>
              bid \<notin> set (map b_id (businesses db)) \<or> vid \<notin> set (map v_id (vouchers db))")
  case True
  then show ?thesis
    by (auto simp: post_business_payments_process_def createBusinessPayment_def Let_def)
next
  case False
  then have "map (\<lambda>p. if p_id p = uuid then p\<lparr>p_status := Some ''completed''\<rparr> else p)
               (business_payments db) = business_payments db"
    by (intro map_idI) auto
  with False show ?thesis
    by (simp add: post_business_payments_process_def createBusinessPayment_def
        updateBusinessPaymentStatus_def Let_def)
qed

lemma processBusinessPayment_cases:
  "processBusinessPayment db bid voucher env = db \<or>
   (\<exists>p. p_voucherId p = vv_id voucher \<and> p_businessId p = bid \<and>
        p_status p = Some ''completed'' \<and>
        map_option dv_discountedPrice (vv_deal voucher) = Some (p_amount p) \<and>
        vv_id voucher \<in> set (map v_id (vouchers db)) \<and>
        processBusinessPayment db bid voucher env =
          db\<lparr>business_payments := business_payments db @ [p]\<rparr>)"
proof (cases "vv_deal voucher")
  case None
  then show ?thesis by (simp add: processBusinessPayment_def)
next
  case (Some deal)
  let ?d = "Some (''Voucher uitbetaling: '' @ dv_title deal)"
  let ?p = "\<lparr>p_id = f_paymentId env, p_businessId = bid, p_voucherId = vv_id voucher,
             p_amount = dv_discountedPrice deal, p_description = ?d,
             p_stripeTransferId = None, p_status = Some ''completed'',
             p_createdAt = Some (f_tPayment env)\<rparr>"
  have eq: "processBusinessPayment db bid voucher env =
          snd (post_business_payments_process db bid (vv_id voucher) (dv_discountedPrice deal)
                 ?d (f_paymentId env) (f_tPayment env) (f_tTransfer env))"
    using Some by (simp add: processBusinessPayment_def)
  from post_business_payments_process_cases [of db bid "vv_id voucher"
        "dv_discountedPrice deal" ?d "f_paymentId env" "f_tPayment env" "f_tTransfer env"]
  show ?thesis
  proof
    assume "snd (post_business_payments_process db bid (vv_id voucher)
                   (dv_discountedPrice deal) ?d (f_paymentId env) (f_tPayment env)
                   (f_tTransfer env)) = db"
    then show ?thesis using eq by simp
  next
    assume a: "bid \<in> set (map b_id (businesses db)) \<and>
          vv_id voucher \<in> set (map v_id (vouchers db)) \<and>
          snd (post_business_payments_process db bid (vv_id voucher)
                 (dv_discountedPrice deal) ?d (f_paymentId env) (f_tPayment env)
                 (f_tTransfer env)) = db\<lparr>business_payments := business_payments db @ [?p]\<rparr>"
    have "p_voucherId ?p = vv_id voucher \<and> p_businessId ?p = bid \<and>
        p_status ?p = Some ''completed'' \<and>
        map_option dv_discountedPrice (vv_deal voucher) = Some (p_amount ?p) \<and>
        vv_id voucher \<in> set (map v_id (vouchers db)) \<and>
        processBusinessPayment db bid voucher env =
          db\<lparr>business_payments := business_payments db @ [?p]\<rparr>"
      using a eq Some by simp
    then show ?thesis by blast
  qed
qed

lemma verify_frame: "snd (post_business_vouchers_verify db code now) = db"
  by (auto simp: post_business_vouchers_verify_def split: option.splits)

lemma verify_Verification_ok:
  "post_business_vouchers_verify db code now = (res, db1) \<Longrightarrow>
   snd res = Verification valid voucher msg \<Longrightarrow> response_ok res"
  by (auto simp: post_business_vouchers_verify_def response_ok_def
           split: option.splits if_splits)

lemma verify_valid:
  assumes "post_business_vouchers_verify db (Some c) now = (res, db1)"
      and "snd res = Verification True voucher msg"
  shows "\<exists>v. find (\<lambda>v. v_code v = c) (vouchers db) = Some v \<and> voucher = join_voucher db v \<and>
             v_status v = Some ''active''"
  using assms
  by (auto simp: post_business_vouchers_verify_def verifyVoucherByCode_def join_voucher_fields
           split: option.splits if_splits)

lemma redeem_checks_reject_not_ok:
  "redeem_checks db code businessId now = Inl r \<Longrightarrow> \<not> response_ok r"
  by (auto simp: redeem_checks_def response_ok_def split: option.splits if_splits)

lemma redeem_commit_not_ok:
  "redeem_commit db voucher tUse tResp = (rr, db2) \<Longrightarrow> \<not> fst (useVoucher db (vv_id voucher) tUse)
     \<Longrightarrow> \<not> response_ok rr"
  by (cases "useVoucher db (vv_id voucher) tUse") (auto simp: redeem_commit_def response_ok_def)

lemma redeem_ok_200:
  assumes "post_business_vouchers_redeem db code businessId now tUse tResp = (rr, db2)"
      and "response_ok rr"
  shows "fst rr = 200"
proof (cases "redeem_checks db code businessId now")
  case (Inl r)
  then show ?thesis
    using assms redeem_checks_reject_not_ok [of db code businessId now r]
    by (simp add: post_business_vouchers_redeem_def)
next
  case (Inr voucher)
  then have c: "redeem_commit db voucher tUse tResp = (rr, db2)"
    using assms(1) by (simp add: post_business_vouchers_redeem_def)
  show ?thesis
  proof (cases "fst (useVoucher db (vv_id voucher) tUse)")
    case True
    then show ?thesis using c
      by (cases "useVoucher db (vv_id voucher) tUse") (auto simp: redeem_commit_def)
  next
    case False
    then show ?thesis using redeem_commit_not_ok [OF c] assms(2) by simp
  qed
qed

lemma redeem_success_response:
  assumes "post_business_vouchers_redeem db code businessId now tUse tResp = (rr, db2)"
      and "fst rr = 200"
  shows "\<exists>m r. snd rr = Redemption True m r"
proof (cases "redeem_checks db code businessId now")
  case (Inl r)
  then show ?thesis
    using assms redeem_checks_reject_code [of db code businessId now r]
    by (simp add: post_business_vouchers_redeem_def)
next
  case (Inr voucher)
  then have "redeem_commit db voucher tUse tResp = (rr, db2)"
    using assms(1) by (simp add: post_business_vouchers_redeem_def)
  then show ?thesis using assms(2)
    by (cases "useVoucher db (vv_id voucher) tUse")
       (auto simp: redeem_commit_def split: if_splits)
qed

lemma flow_stops_at_verify:
  assumes "post_business_vouchers_verify db (Some (trim code)) (f_tVerify env) = (res, db1)"
      and "\<not> (\<exists>voucher msg. snd res = Verification True voucher msg \<and>
                (\<exists>b. vv_business voucher = Some b \<and> b_id b = businessId))"
  shows "handleAutoRedeemVoucher db businessId code env = db1"
proof (cases "snd res")
  case (Verification valid voucher msg)
  show ?thesis
  proof (cases valid)
    case False
    then show ?thesis using assms(1) Verification by (simp add: handleAutoRedeemVoucher_def)
  next
    case True
    then have "\<not> (\<exists>b. vv_business voucher = Some b \<and> b_id b = businessId)"
      using assms(2) Verification by simp
    then show ?thesis using assms(1) Verification True
      by (cases "vv_business voucher") (simp_all add: handleAutoRedeemVoucher_def)
  qed
qed (use assms(1) in \<open>simp_all add: handleAutoRedeemVoucher_def\<close>)

lemma flow_after_verify:
  assumes "post_business_vouchers_verify db (Some (trim code)) (f_tVerify env) = (res, db1)"
      and "snd res = Verification True voucher msg"
      and "vv_business voucher = Some b" "b_id b = businessId"
      and "post_business_vouchers_redeem db1 (Some (trim code)) (Some businessId)
             (f_tRedeem env) (f_tUse env) (f_tResp env) = (rr, db2)"
  shows "handleAutoRedeemVoucher db businessId code env =
           (if fst rr = 200
            then processBusinessPayment (sendRedemptionNotification db2 voucher env)
                   businessId voucher env
            else db2)"
proof -
  have ok: "response_ok res" using verify_Verification_ok [OF assms(1,2)] .
  have unfold: "handleAutoRedeemVoucher db businessId code env =
      (case snd rr of
         Redemption success message' redeemed \<Rightarrow>
           if response_ok rr \<and> success
           then processBusinessPayment (sendRedemptionNotification db2 voucher env)
                  businessId voucher env
           else db2
       | _ \<Rightarrow> db2)"
    using assms ok by (simp add: handleAutoRedeemVoucher_def)
  show ?thesis
  proof (cases "fst rr = 200")
    case True
    then obtain m r where "snd rr = Redemption True m r"
      using redeem_success_response [OF assms(5)] by blast
    moreover have "response_ok rr" using True by (simp add: response_ok_def)
    ultimately have "handleAutoRedeemVoucher db businessId code env =
        processBusinessPayment (sendRedemptionNotification db2 voucher env)
          businessId voucher env"
      using unfold by simp
    then show ?thesis using True by simp
  next
    case False
    then have "\<not> response_ok rr" using redeem_ok_200 [OF assms(5)] by blast
    then show ?thesis using unfold False by (cases "snd rr") simp_all
  qed
qed


lemma handleAutoRedeemVoucher_cases:
  "handleAutoRedeemVoucher db businessId code env = db \<or>
   (\<exists>v b. find (\<lambda>v. v_code v = trim code) (vouchers db) = Some v \<and>
      v_status v = Some ''active'' \<and> \<not> v_expiresAt v < f_tRedeem env \<and>
      vv_business (join_voucher db v) = Some b \<and> b_id b = businessId \<and>
      handleAutoRedeemVoucher db businessId code env =
        processBusinessPayment
          (sendRedemptionNotification (snd (useVoucher db (v_id v) (f_tUse env)))
             (join_voucher db v) env)
          businessId (join_voucher db v) env)"
proof -
  obtain res db1 where ver: "post_business_vouchers_verify db (Some (trim code)) (f_tVerify env)
      = (res, db1)" by (cases "post_business_vouchers_verify db (Some (trim code)) (f_tVerify env)")
  have db1: "db1 = db" using verify_frame [of db "Some (trim code)" "f_tVerify env"] ver by simp
  obtain rr db2 where red: "post_business_vouchers_redeem db1 (Some (trim code)) (Some businessId)
      (f_tRedeem env) (f_tUse env) (f_tResp env) = (rr, db2)"
    by (cases "post_business_vouchers_redeem db1 (Some (trim code)) (Some businessId)
      (f_tRedeem env) (f_tUse env) (f_tResp env)")
  show ?thesis
  proof (cases "\<exists>voucher msg. snd res = Verification True voucher msg \<and>
                (\<exists>b. vv_business voucher = Some b \<and> b_id b = businessId)")
    case False
    then show ?thesis using flow_stops_at_verify [OF ver] db1 by simp
  next
    case True
    then obtain voucher msg b where t: "snd res = Verification True voucher msg"
        "vv_business voucher = Some b" "b_id b = businessId" by blast
    note flow = flow_after_verify [OF ver t red]
    show ?thesis
    proof (cases "fst rr = 200")
      case False
      then have "db2 = db" using redeem_rejection_unchanged [OF red] db1 by simp
      then show ?thesis using flow False by simp
    next
      case True
      obtain v where v: "find (\<lambda>v. v_code v = trim code) (vouchers db) = Some v"
          "voucher = join_voucher db v" "v_status v = Some ''active''"
        using verify_valid [OF ver t(1)] by blast
      obtain c' v' where s: "Some (trim code) = Some c'"
          "find (\<lambda>v. v_code v = c') (vouchers db1) = Some v'"
          "\<not> v_expiresAt v' < f_tRedeem env"
          "db2 = snd (useVoucher db1 (v_id v') (f_tUse env))"
        using redeem_success_shape [OF red True] by blast
      then have same: "v' = v" using v(1) db1 by simp
      have "handleAutoRedeemVoucher db businessId code env =
          processBusinessPayment
            (sendRedemptionNotification (snd (useVoucher db (v_id v) (f_tUse env)))
               (join_voucher db v) env)
            businessId (join_voucher db v) env"
        using flow True s(4) same db1 v(2) by simp
      then show ?thesis using v t s(3) same by blast
    qed
  qed
qed

lemma trim_scenario_code: "trim ''DS-1700000000000-AB12CD'' = ''DS-1700000000000-AB12CD''"
  by (simp add: trim_def is_space_def)


lemma show_int_1700000500301: "show_int 1700000500301 = ''1700000500301''"
  by (simp add: show_int_def show_nat.simps)

text \<open>
  Claim C4 (the code departs from it).  A successful redemption through the route sets
  the voucher to \<open>used\<close> with \<open>usedAt\<close>, but the route itself writes no notification
  and no payment: those are posted by the client, and only by its scan-and-redeem
  handler.  The manual "redeem" button of the same component calls the same route and
  leaves both tables empty.
\<close>

theorem manual_redemption_no_side_effects:
  "vouchers (handleRedeemVoucher scenario_db ''b1'' ''DS-1700000000000-AB12CD''
               (Some (join_voucher scenario_db scenario_voucher)) scenario_flow_env) =
     [scenario_voucher\<lparr>v_status := Some ''used'', v_usedAt := Some 1700000500101\<rparr>] \<and>
   notifications (handleRedeemVoucher scenario_db ''b1'' ''DS-1700000000000-AB12CD''
               (Some (join_voucher scenario_db scenario_voucher)) scenario_flow_env) = [] \<and>
   business_payments (handleRedeemVoucher scenario_db ''b1'' ''DS-1700000000000-AB12CD''
               (Some (join_voucher scenario_db scenario_voucher)) scenario_flow_env) = [] \<and>
   fst (post_business_vouchers_redeem scenario_db (Some ''DS-1700000000000-AB12CD'')
          (Some ''b1'') 1700000500100 1700000500101 1700000500102) =
     (200, Redemption True ''Voucher redeemed successfully''
             ((join_voucher scenario_db scenario_voucher)
                \<lparr>vv_status := Some ''used'', vv_usedAt := Some 1700000500102\<rparr>))"
  by (simp add: handleRedeemVoucher_def trim_scenario_code scenario_flow_env_def
      scenario_simps)


lemma post_business_payments_process_success:
  assumes "uuid \<notin> set (map p_id (business_payments db))"
      and "bid \<in> set (map b_id (businesses db))" "vid \<in> set (map v_id (vouchers db))"
  shows "snd (post_business_payments_process db bid vid amount descr uuid t1 t2) =
      db\<lparr>business_payments := business_payments db @
           [\<lparr>p_id = uuid, p_businessId = bid, p_voucherId = vid, p_amount = amount,
             p_description = descr, p_stripeTransferId = None,
             p_status = Some ''completed'', p_createdAt = Some t1\<rparr>]\<rparr>"
proof -
  have "map (\<lambda>p. if p_id p = uuid then p\<lparr>p_status := Some ''completed''\<rparr> else p)
               (business_payments db) = business_payments db"
    using assms(1) by (intro map_idI) auto
  with assms show ?thesis
    by (simp add: post_business_payments_process_def createBusinessPayment_def
        updateBusinessPaymentStatus_def Let_def)
qed

text \<open>
  In general: when the scanned code is that of an active, unexpired voucher of the
  scanning business, whose deal, business and owner are stored, and the fresh
  identifiers are unused, the flow stores exactly the \<open>used\<close> voucher, one notification
  for the owner and one \<open>completed\<close> payment of the discounted price.
\<close>

lemma auto_redemption_creates_rows:
  assumes found: "find (\<lambda>v. v_code v = trim code) (vouchers db) = Some v"
      and req: "trim code \<noteq> []" "businessId \<noteq> []"
      and active: "v_status v = Some ''active''"
      and fresh: "\<not> v_expiresAt v < f_tVerify env" "\<not> v_expiresAt v < f_tRedeem env"
      and deal: "find (\<lambda>d. d_id d = v_dealId v) (deals db) = Some d"
      and business: "find (\<lambda>b. b_id b = d_businessId d) (businesses db) = Some b"
                    "b_id b = businessId"
      and user: "find (\<lambda>u. u_id u = v_userId v) (users db) = Some u"
      and ids: "f_notificationId env \<notin> set (map n_id (notifications db))"
               "f_paymentId env \<notin> set (map p_id (business_payments db))"
  shows "handleAutoRedeemVoucher db businessId code env =
     db\<lparr>vouchers := map (\<lambda>w. if use_matches (v_id v) w then mark_used (f_tUse env) w else w)
                        (vouchers db),
        notifications := notifications db @
          [\<lparr>n_id = f_notificationId env, n_userId = v_userId v,
            n_title = ''Voucher Ingewisseld '' @ [CHR 0xE2, CHR 0x9C, CHR 0x85],
            n_message = ''Uw voucher voor '' @ [CHR 0x22] @ d_title d @ [CHR 0x22] @
                        '' is succesvol gebruikt bij '' @ b_name b,
            n_type = ''voucher_redeemed'', n_read = Some False,
            n_createdAt = Some (f_tNotification env)\<rparr>],
        business_payments := business_payments db @
          [\<lparr>p_id = f_paymentId env, p_businessId = businessId, p_voucherId = v_id v,
            p_amount = d_discountedPrice d,
            p_description = Some (''Voucher uitbetaling: '' @ d_title d),
            p_stripeTransferId = None, p_status = Some ''completed'',
            p_createdAt = Some (f_tPayment env)\<rparr>]\<rparr>"
proof -
  let ?view = "join_voucher db v"
  have view: "vv_deal ?view = Some (deal_fields d)" "vv_business ?view = Some b"
      "vv_user ?view = Some u" "vv_id ?view = v_id v"
    using deal business user by (simp_all add: join_voucher_def Let_def)
  have ver: "post_business_vouchers_verify db (Some (trim code)) (f_tVerify env) =
               ((200, Verification True ?view ''Voucher is valid and ready to use''), db)"
    using found req(1) active fresh(1)
    by (simp add: post_business_vouchers_verify_def verifyVoucherByCode_def join_voucher_fields)
  have chk: "redeem_checks db (Some (trim code)) (Some businessId) (f_tRedeem env) = Inr ?view"
    using found req active fresh(2) view(2) business(2)
    by (simp add: redeem_checks_def verifyVoucherByCode_def join_voucher_fields)
  let ?db2 = "snd (useVoucher db (v_id v) (f_tUse env))"
  have red: "post_business_vouchers_redeem db (Some (trim code)) (Some businessId)
               (f_tRedeem env) (f_tUse env) (f_tResp env) =
             ((200, Redemption True ''Voucher redeemed successfully''
                      (?view\<lparr>vv_status := Some ''used'', vv_usedAt := Some (f_tResp env)\<rparr>)),
              ?db2)"
    using chk redeem_commit_active [OF found active]
    by (simp add: post_business_vouchers_redeem_def)
  have flow: "handleAutoRedeemVoucher db businessId code env =
                processBusinessPayment (sendRedemptionNotification ?db2 ?view env)
                  businessId ?view env"
    using flow_after_verify [OF ver _ view(2) business(2) red] by simp
  have db2: "?db2 = db\<lparr>vouchers :=
                 map (\<lambda>w. if use_matches (v_id v) w then mark_used (f_tUse env) w else w)
                   (vouchers db)\<rparr>"
    by (simp add: useVoucher_def Let_def)
  have u: "u_id u = v_userId v" "u \<in> set (users db)"
    using find_SomeD [OF user] by simp_all
  have b: "b \<in> set (businesses db)" using find_SomeD [OF business(1)] by simp
  have v: "v \<in> set (vouchers db)" using find_SomeD [OF found] by simp
  let ?n = "\<lparr>n_id = f_notificationId env, n_userId = v_userId v,
            n_title = ''Voucher Ingewisseld '' @ [CHR 0xE2, CHR 0x9C, CHR 0x85],
            n_message = ''Uw voucher voor '' @ [CHR 0x22] @ d_title d @ [CHR 0x22] @
                        '' is succesvol gebruikt bij '' @ b_name b,
            n_type = ''voucher_redeemed'', n_read = Some False,
            n_createdAt = Some (f_tNotification env)\<rparr>"
  have uid: "u_id u \<in> u_id ` set (users db)"
    using u(2) by (rule imageI)
  have notified: "sendRedemptionNotification ?db2 ?view env =
                    ?db2\<lparr>notifications := notifications db @ [?n]\<rparr>"
    using view uid u(1) ids(1)
    by (simp add: sendRedemptionNotification_def post_notifications_def
        createNotification_def deal_fields_def db2 Let_def)
  let ?db3 = "sendRedemptionNotification ?db2 ?view env"
  have "f_paymentId env \<notin> set (map p_id (business_payments ?db3))"
    using ids(2) by (simp add: sendRedemptionNotification_frame useVoucher_other_tables)
  moreover have "businessId \<in> set (map b_id (businesses ?db3))"
    using b business(2) by (auto simp: sendRedemptionNotification_frame useVoucher_other_tables)
  moreover have "v_id v \<in> set (map v_id (vouchers ?db3))"
    using v unfolding sendRedemptionNotification_frame useVoucher_ids by simp
  ultimately have paid: "snd (post_business_payments_process ?db3 businessId (v_id v)
        (d_discountedPrice d) (Some (''Voucher uitbetaling: '' @ d_title d))
        (f_paymentId env) (f_tPayment env) (f_tTransfer env)) =
      ?db3\<lparr>business_payments := business_payments ?db3 @
           [\<lparr>p_id = f_paymentId env, p_businessId = businessId, p_voucherId = v_id v,
             p_amount = d_discountedPrice d,
             p_description = Some (''Voucher uitbetaling: '' @ d_title d),
             p_stripeTransferId = None, p_status = Some ''completed'',
             p_createdAt = Some (f_tPayment env)\<rparr>]\<rparr>"
    by (rule post_business_payments_process_success)
  have pp: "processBusinessPayment ?db3 businessId ?view env =
      ?db3\<lparr>business_payments := business_payments ?db3 @
           [\<lparr>p_id = f_paymentId env, p_businessId = businessId, p_voucherId = v_id v,
             p_amount = d_discountedPrice d,
             p_description = Some (''Voucher uitbetaling: '' @ d_title d),
             p_stripeTransferId = None, p_status = Some ''completed'',
             p_createdAt = Some (f_tPayment env)\<rparr>]\<rparr>"
    using paid view by (simp add: processBusinessPayment_def deal_fields_def)
  have "handleAutoRedeemVoucher db businessId code env =
      ?db3\<lparr>business_payments := business_payments ?db3 @
           [\<lparr>p_id = f_paymentId env, p_businessId = businessId, p_voucherId = v_id v,
             p_amount = d_discountedPrice d,
             p_description = Some (''Voucher uitbetaling: '' @ d_title d),
             p_stripeTransferId = None, p_status = Some ''completed'',
             p_createdAt = Some (f_tPayment env)\<rparr>]\<rparr>"
    using flow pp by (rule trans)
  then show ?thesis
    unfolding notified by (simp add: useVoucher_def Let_def)
qed

subsection \<open>Shapes of a step\<close>

lemma patch_vouchers_use_snd:
  "snd (patch_vouchers_use db user vid t) = snd (useVoucher db vid t)"
  by (cases "useVoucher db vid t") (simp add: patch_vouchers_use_def)

lemma processBusinessPayment_frame:
  "vouchers (processBusinessPayment db bid voucher env) = vouchers db"
  using processBusinessPayment_cases [of db bid voucher env] by auto

lemma redeem_route_cases:
  "snd (post_business_vouchers_redeem db code businessId now tUse tResp) = db \<or>
   (\<exists>v. v \<in> set (vouchers db) \<and> v_status v = Some ''active'' \<and>
        snd (post_business_vouchers_redeem db code businessId now tUse tResp) =
          snd (useVoucher db (v_id v) tUse))"
proof -
  obtain rr db2 where red:
    "post_business_vouchers_redeem db code businessId now tUse tResp = (rr, db2)"
    by (cases "post_business_vouchers_redeem db code businessId now tUse tResp")
  show ?thesis
  proof (cases "fst rr = 200")
    case False
    then show ?thesis using redeem_rejection_unchanged [OF red] red by simp
  next
    case True
    then obtain c v where "find (\<lambda>v. v_code v = c) (vouchers db) = Some v"
        "v_status v = Some ''active''" "db2 = snd (useVoucher db (v_id v) tUse)"
      using redeem_success_shape [OF red] by blast
    then show ?thesis using red find_SomeD [of "\<lambda>v. v_code v = c" "vouchers db" v] by auto
  qed
qed

lemma payments_process_cases:
  "snd (post_payments_process db user dealId ok t1 t2 t3 env) = db \<or>
   (\<exists>voucher. iv_status voucher = None \<and> iv_usedAt voucher = None \<and>
      createVoucher db voucher env =
        Inr (new_voucher_row voucher env,
             snd (post_payments_process db user dealId ok t1 t2 t3 env)))"
proof (cases "ok \<and> dealId \<noteq> None")
  case False
  then show ?thesis by (auto simp: post_payments_process_def)
next
  case True
  then obtain d where d: "dealId = Some d" by auto
  let ?iv = "\<lparr>iv_userId = user, iv_dealId = d, iv_code = ''V'' @ show_int t1,
              iv_status = None, iv_usedAt = None,
              iv_expiresAt = Some (t2 + 30 * 24 * 60 * 60 * 1000)\<rparr>"
  show ?thesis
  proof (cases "createVoucher db ?iv env")
    case (Inl e)
    then show ?thesis using True d by (simp add: post_payments_process_def)
  next
    case (Inr r)
    obtain row db' where r: "r = (row, db')" by (cases r)
    have "row = new_voucher_row ?iv env" using createVoucher_Inr Inr r by blast
    moreover have "snd (post_payments_process db user dealId ok t1 t2 t3 env) = db'"
      using True d Inr r by (simp add: post_payments_process_def)
    ultimately have "iv_status ?iv = None \<and> iv_usedAt ?iv = None \<and>
      createVoucher db ?iv env =
        Inr (new_voucher_row ?iv env,
             snd (post_payments_process db user dealId ok t1 t2 t3 env))"
      using Inr r by simp
    then show ?thesis by blast
  qed
qed

text \<open>The three shapes of a step.\<close>

lemma step_cases:
  "step db op = db \<or>
   (\<exists>v t. v \<in> set (vouchers db) \<and> v_status v = Some ''active'' \<and>
      (step db op = snd (useVoucher db (v_id v) t) \<or>
       (\<exists>bid voucher env. vv_id voucher = v_id v \<and>
          step db op =
            processBusinessPayment
              (sendRedemptionNotification (snd (useVoucher db (v_id v) t)) voucher env)
              bid voucher env))) \<or>
   (\<exists>voucher env.
      createVoucher db voucher env = Inr (new_voucher_row voucher env, step db op) \<and>
      (op = CreateVoucher voucher env \<or> (iv_status voucher = None \<and> iv_usedAt voucher = None)))"
proof (cases op)
  case (CreateVoucher voucher env)
  show ?thesis
  proof (cases "createVoucher db voucher env")
    case (Inl e)
    then show ?thesis using CreateVoucher by simp
  next
    case (Inr r)
    obtain row db' where r: "r = (row, db')" by (cases r)
    have "row = new_voucher_row voucher env" using createVoucher_Inr Inr r by blast
    then have "createVoucher db voucher env = Inr (new_voucher_row voucher env, step db op)"
      using Inr r CreateVoucher by simp
    then show ?thesis using CreateVoucher by blast
  qed
next
  case (PaymentsProcess user dealId ok t1 t2 t3 env)
  then show ?thesis using payments_process_cases [of db user dealId ok t1 t2 t3 env] by auto
next
  case (PatchUse user vid t)
  show ?thesis
  proof (cases "fst (useVoucher db vid t)")
    case False
    then show ?thesis
      using PatchUse useVoucher_failure_unchanged by (simp add: patch_vouchers_use_snd)
  next
    case True
    then obtain v where "v \<in> set (vouchers db)" "v_id v = vid" "v_status v = Some ''active''"
      by (auto simp: useVoucher_success_iff use_matches_def)
    then show ?thesis using PatchUse by (auto simp: patch_vouchers_use_snd)
  qed
next
  case (Verify code now)
  then show ?thesis by (simp add: verify_frame)
next
  case (Redeem code bid now tUse tResp)
  then show ?thesis using redeem_route_cases [of db code bid now tUse tResp] by auto
next
  case (AutoRedeem bid code env)
  from handleAutoRedeemVoucher_cases [of db bid code env] show ?thesis
  proof
    assume "handleAutoRedeemVoucher db bid code env = db"
    then show ?thesis using AutoRedeem by simp
  next
    assume "\<exists>v b. find (\<lambda>v. v_code v = trim code) (vouchers db) = Some v \<and>
      v_status v = Some ''active'' \<and> \<not> v_expiresAt v < f_tRedeem env \<and>
      vv_business (join_voucher db v) = Some b \<and> b_id b = bid \<and>
      handleAutoRedeemVoucher db bid code env =
        processBusinessPayment
          (sendRedemptionNotification (snd (useVoucher db (v_id v) (f_tUse env)))
             (join_voucher db v) env)
          bid (join_voucher db v) env"
    then obtain v where v: "find (\<lambda>v. v_code v = trim code) (vouchers db) = Some v"
      "v_status v = Some ''active''"
      "handleAutoRedeemVoucher db bid code env =
        processBusinessPayment
          (sendRedemptionNotification (snd (useVoucher db (v_id v) (f_tUse env)))
             (join_voucher db v) env)
          bid (join_voucher db v) env" by blast
    have "v \<in> set (vouchers db)" using v(1) find_SomeD by fastforce
    moreover have "vv_id (join_voucher db v) = v_id v" by (simp add: join_voucher_fields)
    ultimately show ?thesis using v(2,3) AutoRedeem by (simp; blast)
  qed
qed

subsection \<open>The voucher invariant\<close>

lemma step_vouchers_shape:
  "vouchers (step db op) = vouchers db \<or>
   (\<exists>vid t. vouchers (step db op) =
        map (\<lambda>v. if use_matches vid v then mark_used t v else v) (vouchers db)) \<or>
   (\<exists>voucher env. vouchers (step db op) = vouchers db @ [new_voucher_row voucher env] \<and>
        (op = CreateVoucher voucher env \<or> (iv_status voucher = None \<and> iv_usedAt voucher = None)))"
proof -
  consider (same) "step db op = db"
    | (used) v t where "v \<in> set (vouchers db)" "v_status v = Some ''active''"
        "step db op = snd (useVoucher db (v_id v) t) \<or>
         (\<exists>bid voucher env. vv_id voucher = v_id v \<and>
            step db op =
              processBusinessPayment
                (sendRedemptionNotification (snd (useVoucher db (v_id v) t)) voucher env)
                bid voucher env)"
    | (created) voucher env where
        "createVoucher db voucher env = Inr (new_voucher_row voucher env, step db op)"
        "op = CreateVoucher voucher env \<or> (iv_status voucher = None \<and> iv_usedAt voucher = None)"
    using step_cases [of db op] by blast
  then show ?thesis
  proof cases
    case same
    then show ?thesis by simp
  next
    case used
    then have "vouchers (step db op) = vouchers (snd (useVoucher db (v_id v) t))"
      by (auto simp: processBusinessPayment_frame sendRedemptionNotification_frame)
    then show ?thesis unfolding useVoucher_vouchers by blast
  next
    case created
    then have "step db op = db\<lparr>vouchers := vouchers db @ [new_voucher_row voucher env]\<rparr>"
      using createVoucher_Inr [of db voucher env "new_voucher_row voucher env" "step db op"]
      by blast
    then have "vouchers (step db op) = vouchers db @ [new_voucher_row voucher env]"
      by simp
    then show ?thesis using created(2) by blast
  qed
qed


lemma mark_used_invariant: "usedAt_iff_used (mark_used t v)"
  by (simp add: usedAt_iff_used_def mark_used_def)

lemma new_voucher_row_defaults:
  "iv_status voucher = None \<Longrightarrow> iv_usedAt voucher = None \<Longrightarrow>
     usedAt_iff_used (new_voucher_row voucher env)"
  by (simp add: usedAt_iff_used_def new_voucher_row_def)

text \<open>
  Claim C6 (amended).  \<open>createVoucher\<close> stores the status the caller supplies
  (\<open>active\<close> when omitted) and the \<open>usedAt\<close> the caller supplies (none when omitted).
  Every operation of the voucher life cycle keeps "\<open>usedAt\<close> is set iff status is
  \<open>used\<close>" true of all stored vouchers, provided a direct \<open>createVoucher\<close> call is
  given a status and \<open>usedAt\<close> that agree with it; the payment route supplies neither.
  No operation removes a voucher, and the only change to a stored voucher is from status
  \<open>active\<close> to \<open>used\<close> with \<open>usedAt\<close> set in the same update.
\<close>

theorem voucher_invariant_preserved:
  assumes inv: "\<forall>v \<in> set (vouchers db). usedAt_iff_used v"
      and supplied: "\<forall>voucher env. op = CreateVoucher voucher env \<longrightarrow>
                       (iv_usedAt voucher \<noteq> None \<longleftrightarrow>
                        (case iv_status voucher of None \<Rightarrow> Some ''active'' | Some s \<Rightarrow> s)
                          = Some ''used'')"
  shows "(\<forall>v \<in> set (vouchers (step db op)). usedAt_iff_used v) \<and>
         length (vouchers db) \<le> length (vouchers (step db op)) \<and>
         (\<forall>i < length (vouchers db).
            vouchers (step db op) ! i = vouchers db ! i \<or>
            (v_status (vouchers db ! i) = Some ''active'' \<and>
             (\<exists>t. vouchers (step db op) ! i =
                     (vouchers db ! i)\<lparr>v_status := Some ''used'', v_usedAt := Some t\<rparr>))) \<and>
         (\<forall>voucher env row db'. createVoucher db voucher env = Inr (row, db') \<longrightarrow>
            v_status row = (case iv_status voucher of None \<Rightarrow> Some ''active'' | Some s \<Rightarrow> s) \<and>
            v_usedAt row = iv_usedAt voucher \<and> vouchers db' = vouchers db @ [row])"
proof -
  have stored: "\<forall>voucher env row db'. createVoucher db voucher env = Inr (row, db') \<longrightarrow>
            v_status row = (case iv_status voucher of None \<Rightarrow> Some ''active'' | Some s \<Rightarrow> s) \<and>
            v_usedAt row = iv_usedAt voucher \<and> vouchers db' = vouchers db @ [row]"
    using createVoucher_Inr by (fastforce simp: new_voucher_row_def)
  consider (same) "vouchers (step db op) = vouchers db"
    | (used) vid t where "vouchers (step db op) =
        map (\<lambda>v. if use_matches vid v then mark_used t v else v) (vouchers db)"
    | (created) voucher env where
        "vouchers (step db op) = vouchers db @ [new_voucher_row voucher env]"
        "op = CreateVoucher voucher env \<or> (iv_status voucher = None \<and> iv_usedAt voucher = None)"
    using step_vouchers_shape [of db op] by blast
  then have "(\<forall>v \<in> set (vouchers (step db op)). usedAt_iff_used v) \<and>
         length (vouchers db) \<le> length (vouchers (step db op)) \<and>
         (\<forall>i < length (vouchers db).
            vouchers (step db op) ! i = vouchers db ! i \<or>
            (v_status (vouchers db ! i) = Some ''active'' \<and>
             (\<exists>t. vouchers (step db op) ! i =
                     (vouchers db ! i)\<lparr>v_status := Some ''used'', v_usedAt := Some t\<rparr>)))"
  proof cases
    case same
    then show ?thesis using inv by simp
  next
    case used
    have a: "\<forall>v \<in> set (vouchers (step db op)). usedAt_iff_used v"
      using inv unfolding used by (auto simp: mark_used_invariant)
    have b: "\<forall>i < length (vouchers db).
            vouchers (step db op) ! i = vouchers db ! i \<or>
            (v_status (vouchers db ! i) = Some ''active'' \<and>
             (\<exists>t. vouchers (step db op) ! i =
                     (vouchers db ! i)\<lparr>v_status := Some ''used'', v_usedAt := Some t\<rparr>))"
      unfolding used by (auto simp: use_matches_def mark_used_def)
    show ?thesis using a b by (simp add: used)
  next
    case created
    have "usedAt_iff_used (new_voucher_row voucher env)"
      using created(2)
    proof
      assume "op = CreateVoucher voucher env"
      then show ?thesis using supplied by (simp add: usedAt_iff_used_def new_voucher_row_def)
    next
      assume "iv_status voucher = None \<and> iv_usedAt voucher = None"
      then show ?thesis by (simp add: new_voucher_row_defaults)
    qed
    then show ?thesis using inv by (auto simp: created(1) nth_append)
  qed
  then show ?thesis using stored by blast
qed

text \<open>A direct issuance that supplies status \<open>used\<close> together with a \<open>usedAt\<close>.\<close>

theorem voucher_invariant_preserved_witness:
  "list_all usedAt_iff_used (vouchers scenario_db) \<and>
   vouchers (step scenario_db
      (CreateVoucher \<lparr>iv_userId = ''u1'', iv_dealId = ''d1'', iv_code = ''V1700000000000'',
                      iv_status = Some (Some ''used''), iv_usedAt = Some 1700000000500,
                      iv_expiresAt = None\<rparr> issue_env)) =
     [scenario_voucher,
      \<lparr>v_id = ''v2'', v_userId = ''u1'', v_dealId = ''d1'', v_code = ''DS-1700000000000-K3X9QZ'',
       v_status = Some ''used'', v_purchasedAt = Some 1700000000002,
       v_usedAt = Some 1700000000500, v_expiresAt = 1702592000001\<rparr>] \<and>
   list_all usedAt_iff_used (vouchers (step scenario_db
      (CreateVoucher \<lparr>iv_userId = ''u1'', iv_dealId = ''d1'', iv_code = ''V1700000000000'',
                      iv_status = Some (Some ''used''), iv_usedAt = Some 1700000000500,
                      iv_expiresAt = None\<rparr> issue_env)))"
proof -
  let ?iv = "\<lparr>iv_userId = ''u1'', iv_dealId = ''d1'', iv_code = ''V1700000000000'',
              iv_status = Some (Some ''used''), iv_usedAt = Some 1700000000500,
              iv_expiresAt = None\<rparr>"
  have inv: "\<forall>v \<in> set (vouchers scenario_db). usedAt_iff_used v"
    by (simp add: scenario_db_def scenario_voucher_def usedAt_iff_used_def)
  have supplied: "\<forall>voucher env. CreateVoucher ?iv issue_env = CreateVoucher voucher env \<longrightarrow>
                       (iv_usedAt voucher \<noteq> None \<longleftrightarrow>
                        (case iv_status voucher of None \<Rightarrow> Some ''active'' | Some s \<Rightarrow> s)
                          = Some ''used'')"
    by auto
  have rows: "vouchers (step scenario_db (CreateVoucher ?iv issue_env)) =
     [scenario_voucher,
      \<lparr>v_id = ''v2'', v_userId = ''u1'', v_dealId = ''d1'', v_code = ''DS-1700000000000-K3X9QZ'',
       v_status = Some ''used'', v_purchasedAt = Some 1700000000002,
       v_usedAt = Some 1700000000500, v_expiresAt = 1702592000001\<rparr>]"
    by (simp add: createVoucher_def new_voucher_row_def generated_code_def issue_env_def
        show_int_1700000000000 substr_def toUpperCase_def toUpperCase_char_def
        scenario_db_def scenario_voucher_def Let_def)
  from voucher_invariant_preserved [OF inv supplied]
  have "\<forall>v \<in> set (vouchers (step scenario_db (CreateVoucher ?iv issue_env))). usedAt_iff_used v"
    by blast
  then show ?thesis using inv rows by (simp add: list_all_iff)
qed

text \<open>
  As stated, C6 fails: \<open>createVoucher\<close> given status \<open>used\<close> and no \<open>usedAt\<close> stores a
  voucher that is \<open>used\<close> without \<open>usedAt\<close>, neither \<open>active\<close> nor within the invariant.
\<close>

theorem voucher_invariant_counterexample:
  "list_all usedAt_iff_used (vouchers scenario_db) \<and>
   createVoucher scenario_db
      \<lparr>iv_userId = ''u1'', iv_dealId = ''d1'', iv_code = ''V1700000000000'',
       iv_status = Some (Some ''used''), iv_usedAt = None,
       iv_expiresAt = Some 1702592000000\<rparr> issue_env =
     Inr (\<lparr>v_id = ''v2'', v_userId = ''u1'', v_dealId = ''d1'',
           v_code = ''DS-1700000000000-K3X9QZ'', v_status = Some ''used'',
           v_purchasedAt = Some 1700000000002, v_usedAt = None,
           v_expiresAt = 1702592000000\<rparr>,
          scenario_db\<lparr>vouchers := [scenario_voucher,
            \<lparr>v_id = ''v2'', v_userId = ''u1'', v_dealId = ''d1'',
             v_code = ''DS-1700000000000-K3X9QZ'', v_status = Some ''used'',
             v_purchasedAt = Some 1700000000002, v_usedAt = None,
             v_expiresAt = 1702592000000\<rparr>]\<rparr>) \<and>
   \<not> usedAt_iff_used
       \<lparr>v_id = ''v2'', v_userId = ''u1'', v_dealId = ''d1'',
        v_code = ''DS-1700000000000-K3X9QZ'', v_status = Some ''used'',
        v_purchasedAt = Some 1700000000002, v_usedAt = None,
        v_expiresAt = 1702592000000\<rparr>"
  by (simp add: createVoucher_def new_voucher_row_def generated_code_def issue_env_def
      show_int_1700000000000 substr_def toUpperCase_def toUpperCase_char_def
      scenario_db_def scenario_voucher_def usedAt_iff_used_def Let_def)

subsection \<open>Payments per voucher\<close>














text \<open>
  The payment route by itself has no such guard: posted twice for one voucher outside
  the flow, it stores two payments.
\<close>

lemma direct_payment_posts_unguarded:
  "map p_voucherId
     (business_payments
        (snd (post_business_payments_process
                (snd (post_business_payments_process scenario_db ''b1'' ''v1'' 2500 None
                        ''p1'' 1700000500300 1700000500301))
                ''b1'' ''v1'' 2500 None ''p2'' 1700000500400 1700000500401))) =
     [''v1'', ''v1'']"
  by (simp add: post_business_payments_process_def createBusinessPayment_def
      updateBusinessPaymentStatus_def scenario_simps)

end
